theory Spec2Isabelle
  imports Main "HOL-Library.Multiset"
begin

section \<open>The tables of app.py\<close>

text \<open>
  The application keeps five SQLAlchemy models in one SQLite database. Each model class
  is a record whose fields are the columns of the class, prefixed with the table's
  initial (\<open>q_text\<close> is \<open>Question.text\<close>). A column declared \<open>nullable=False\<close>
  holds a value; every other column holds an \<open>option\<close>, \<open>None\<close> being SQL NULL.
  Primary keys come from the Flask converter \<open>int\<close> and from SQLite row ids,
  both non-negative, so they are natural numbers. The converter puts no upper bound on
  an id of the path; a stored row id is a 64-bit signed integer.
\<close>

record user =
  u_id :: nat
  u_username :: string
  u_password_hash :: string

record template =
  t_id :: nat
  t_name :: string
  t_template_type :: string
  t_description :: "string option"

record question =
  q_id :: nat
  q_template_id :: nat
  q_text :: string
  q_help_text :: "string option"
  q_required :: "bool option"
  q_question_type :: "string option"
  q_options_json :: "string option"

text \<open>
  \<open>Assessment.created_at\<close> is filled by \<open>default=datetime.utcnow\<close> on every insert the
  program makes; the timestamp is an integer count of clock ticks.
\<close>

record assessment =
  a_id :: nat
  a_template_id :: nat
  a_name :: string
  a_vendor_name :: "string option"
  a_product_name :: "string option"
  a_created_at :: int

record answer =
  ans_id :: nat
  ans_assessment_id :: nat
  ans_question_id :: nat
  ans_answer_text :: "string option"

text \<open>
  A table is the list of its rows in the order a full scan of the SQLite row-id tree
  visits them. The committed database is the five tables.
\<close>

record database =
  users :: "user list"
  templates :: "template list"
  questions :: "question list"
  assessments :: "assessment list"
  answers :: "answer list"

definition empty_db :: database where
  "empty_db = \<lparr>users = [], templates = [], questions = [], assessments = [], answers = []\<rparr>"

text \<open>
  An \<open>INTEGER PRIMARY KEY\<close> column without \<open>AUTOINCREMENT\<close> receives one more than the
  largest row id in the table, and 1 in an empty table. What SQLite does once the
  largest 64-bit id is taken (it tries random free ids) is not part of this model: a
  statement that needs the fresh id to be a valid row id assumes it.
\<close>

definition next_id :: "nat list \<Rightarrow> nat" where
  "next_id ids = Suc (fold max ids 0)"

section \<open>Requests and responses\<close>

datatype http_method = GET | POST

text \<open>The targets of \<open>url_for\<close> that the handlers redirect to.\<close>

datatype endpoint =
    Ep_register
  | Ep_login
  | Ep_template_new
  | Ep_template_edit nat
  | Ep_assessment_new nat
  | Ep_assessment_view nat

text \<open>The calls of \<open>render_template\<close>, with the context each one passes.\<close>

datatype page =
    Register_html
  | Template_edit_html "template option" "question list"
  | Question_edit_html template question
  | Assessments_list_html "assessment list"
  | Assessment_new_html template "question list"
  | Assessment_view_html assessment "nat \<rightharpoonup> answer"

text \<open>
  A handler ends by rendering a page, by redirecting (with the messages it flashed, as
  pairs of text and category), by \<open>abort(404)\<close> inside \<open>get_or_404\<close>, by the redirect of
  \<open>@login_required\<close> for a request without a session, or by an exception nothing
  catches, which Flask answers with status 500 after the session is rolled back.
\<close>

datatype response =
    Render page
  | Redirect endpoint "(string \<times> string) list"
  | NotFound
  | Unauthorized
  | ServerError

text \<open>
  \<open>request.form.get(k)\<close> is \<open>form k\<close>: \<open>None\<close> when the field was not submitted.
  Python's \<open>not s\<close> on such a value holds for \<open>None\<close> and for the empty string.
\<close>

type_synonym form = "string \<rightharpoonup> string"

definition blank :: "string option \<Rightarrow> bool" where
  "blank s = (case s of None \<Rightarrow> True | Some v \<Rightarrow> v = [])"

section \<open>Queries\<close>

text \<open>
  \<open>Model.query.get_or_404(id)\<close>, called with an id taken from the path. Flask's \<open>int\<close>
  converter accepts any run of digits, and the id is bound as a parameter of a
  \<open>SELECT\<close>: the sqlite3 driver refuses an integer above the largest 64-bit signed value
  with \<open>OverflowError\<close>, which no handler catches, so the request ends with status 500.
  An id in range that no row carries ends in \<open>abort(404)\<close>.
\<close>

definition sqlite_max_int :: nat where
  "sqlite_max_int = 9223372036854775807"

definition get_or_404 :: "('a \<Rightarrow> nat) \<Rightarrow> 'a list \<Rightarrow> nat \<Rightarrow> response + 'a" where
  "get_or_404 key rows i =
     (if i > sqlite_max_int then Inl ServerError
      else case find (\<lambda>r. key r = i) rows of
        None \<Rightarrow> Inl NotFound
      | Some r \<Rightarrow> Inr r)"

definition get_template :: "database \<Rightarrow> nat \<Rightarrow> response + template" where
  "get_template db i = get_or_404 t_id (templates db) i"

definition get_question :: "database \<Rightarrow> nat \<Rightarrow> response + question" where
  "get_question db i = get_or_404 q_id (questions db) i"

definition get_assessment :: "database \<Rightarrow> nat \<Rightarrow> response + assessment" where
  "get_assessment db i = get_or_404 a_id (assessments db) i"

text \<open>\<open>Question.query.filter_by(template_id=...).all()\<close>: no \<open>ORDER BY\<close>, a scan of the table.\<close>

definition questions_of :: "database \<Rightarrow> nat \<Rightarrow> question list" where
  "questions_of db tid = filter (\<lambda>q. q_template_id q = tid) (questions db)"

text \<open>The relationship \<open>Assessment.answers\<close>: the answers whose foreign key is the assessment.\<close>

definition assessment_answers :: "database \<Rightarrow> assessment \<Rightarrow> answer list" where
  "assessment_answers db a = filter (\<lambda>x. ans_assessment_id x = a_id a) (answers db)"

section \<open>Inserts\<close>

text \<open>
  \<open>db.session.add(Question(template_id=..., text=..., help_text=..., question_type=...))\<close>:
  \<open>required\<close> takes its default \<open>True\<close>, \<open>options_json\<close> stays NULL.
\<close>

definition add_question ::
  "nat \<Rightarrow> string \<Rightarrow> string option \<Rightarrow> string option \<Rightarrow> database \<Rightarrow> database" where
  "add_question tid txt hlp qtype db =
     db\<lparr>questions := questions db @
       [\<lparr>q_id = next_id (map q_id (questions db)), q_template_id = tid, q_text = txt,
         q_help_text = hlp, q_required = Some True, q_question_type = qtype,
         q_options_json = None\<rparr>]\<rparr>"

section \<open>The template catalogue\<close>

text \<open>
  \<open>template_edit\<close> (route \<open>/templates/template_id\<close>, GET and POST). A POST adds
  a question when \<open>question_text\<close> is truthy and redirects to the same view either way;
  the flash happens only when a question was added.
\<close>

definition template_edit ::
  "bool \<Rightarrow> http_method \<Rightarrow> nat \<Rightarrow> form \<Rightarrow> database \<Rightarrow> database \<times> response" where
  "template_edit logged_in method template_id form db =
     (if \<not> logged_in then (db, Unauthorized)
      else case get_template db template_id of
        Inl failure \<Rightarrow> (db, failure)
      | Inr template \<Rightarrow>
          if method = POST then
            (let q_text = form ''question_text'';
                 q_help = form ''help_text'';
                 q_type = (case form ''question_type'' of None \<Rightarrow> ''text'' | Some v \<Rightarrow> v)
             in case q_text of
                  None \<Rightarrow> (db, Redirect (Ep_template_edit (t_id template)) [])
                | Some txt \<Rightarrow>
                    if txt = [] then (db, Redirect (Ep_template_edit (t_id template)) [])
                    else (add_question (t_id template) txt q_help (Some q_type) db,
                          Redirect (Ep_template_edit (t_id template))
                            [(''Question added.'', ''success'')]))
          else (db, Render (Template_edit_html (Some template)
                              (questions_of db (t_id template)))))"

text \<open>
  \<open>template_new\<close> (route \<open>/templates/new\<close>).
\<close>

definition template_new ::
  "bool \<Rightarrow> http_method \<Rightarrow> form \<Rightarrow> database \<Rightarrow> database \<times> response" where
  "template_new logged_in method form db =
     (if \<not> logged_in then (db, Unauthorized)
      else if method = POST then
        (let name = form ''name'';
             template_type = form ''template_type'';
             description = form ''description''
         in case (name, template_type) of
              (Some n, Some ty) \<Rightarrow>
                if n = [] \<or> ty = [] then
                  (db, Redirect Ep_template_new [(''Name and type are required.'', ''danger'')])
                else
                  (let tid = next_id (map t_id (templates db))
                   in (db\<lparr>templates := templates db @
                          [\<lparr>t_id = tid, t_name = n, t_template_type = ty,
                            t_description = description\<rparr>]\<rparr>,
                       Redirect (Ep_template_edit tid) [(''Template created.'', ''success'')]))
            | _ \<Rightarrow> (db, Redirect Ep_template_new [(''Name and type are required.'', ''danger'')]))
      else (db, Render (Template_edit_html None [])))"

text \<open>
  \<open>question_delete\<close> (route \<open>/templates/template_id/questions/question_id/delete\<close>,
  POST only). The template id of the path is used for the redirect and for nothing
  else. \<open>db.session.delete(q)\<close> issues a \<open>DELETE\<close> on the questions table; the class
  \<open>Question\<close> has no relationship towards \<open>Answer\<close>, and the program never switches
  SQLite's foreign-key enforcement on, so no other table is written.
\<close>

definition question_delete ::
  "bool \<Rightarrow> nat \<Rightarrow> nat \<Rightarrow> database \<Rightarrow> database \<times> response" where
  "question_delete logged_in template_id question_id db =
     (if \<not> logged_in then (db, Unauthorized)
      else case get_question db question_id of
        Inl failure \<Rightarrow> (db, failure)
      | Inr q \<Rightarrow>
          (db\<lparr>questions := filter (\<lambda>x. q_id x \<noteq> q_id q) (questions db)\<rparr>,
           Redirect (Ep_template_edit template_id) [(''Question deleted.'', ''info'')]))"

text \<open>
  \<open>question_edit\<close> (route \<open>/templates/template_id/questions/question_id/edit\<close>). Both
  lookups are \<open>get_or_404\<close>, the template first. A POST assigns the three form values to
  the row as they come, \<open>None\<close> included. \<open>questions.text\<close> is \<open>nullable=False\<close>, so a
  submission without the field \<open>text\<close> makes the \<open>UPDATE\<close> of \<open>db.session.commit()\<close>
  raise an integrity error, and nothing is written.
\<close>

definition question_edit ::
  "bool \<Rightarrow> http_method \<Rightarrow> nat \<Rightarrow> nat \<Rightarrow> form \<Rightarrow> database \<Rightarrow> database \<times> response" where
  "question_edit logged_in method template_id question_id form db =
     (if \<not> logged_in then (db, Unauthorized)
      else case get_template db template_id of
        Inl failure \<Rightarrow> (db, failure)
      | Inr template \<Rightarrow>
         (case get_question db question_id of
            Inl failure \<Rightarrow> (db, failure)
          | Inr question \<Rightarrow>
              if method = POST then
                (case form ''text'' of
                   None \<Rightarrow> (db, ServerError)
                 | Some txt \<Rightarrow>
                     (db\<lparr>questions :=
                          map (\<lambda>x. if q_id x = q_id question
                                    then x\<lparr>q_text := txt,
                                           q_help_text := form ''help_text'',
                                           q_question_type := form ''question_type''\<rparr>
                                    else x)
                              (questions db)\<rparr>,
                      Redirect (Ep_template_edit template_id)
                        [(''Question updated.'', ''success'')]))
              else (db, Render (Question_edit_html template question))))"

section \<open>The assessment ledger\<close>

text \<open>
  \<open>Assessment.query.order_by(Assessment.created_at.desc()).all()\<close>. Rows with equal
  timestamps come in an order SQL leaves open; here they keep their table order.
\<close>

definition order_by_created_at_desc :: "assessment list \<Rightarrow> assessment list" where
  "order_by_created_at_desc xs = sort_key (\<lambda>a. - a_created_at a) xs"

definition assessments_list :: "bool \<Rightarrow> database \<Rightarrow> database \<times> response" where
  "assessments_list logged_in db =
     (if \<not> logged_in then (db, Unauthorized)
      else (db, Render (Assessments_list_html (order_by_created_at_desc (assessments db)))))"

text \<open>
  The field of a question in the assessment form is the f-string \<open>question_{q.id}\<close>:
  the decimal digits of the id, without sign or padding.
\<close>

definition digit_char :: "nat \<Rightarrow> char" where
  "digit_char d = ''0123456789'' ! (d mod 10)"

fun str_of_nat :: "nat \<Rightarrow> string" where
  "str_of_nat n =
     (if n < 10 then [digit_char n] else str_of_nat (n div 10) @ [digit_char (n mod 10)])"

declare str_of_nat.simps [simp del]

definition field_name :: "nat \<Rightarrow> string" where
  "field_name qid = ''question_'' @ str_of_nat qid"




definition add_answer :: "nat \<Rightarrow> nat \<Rightarrow> string option \<Rightarrow> database \<Rightarrow> database" where
  "add_answer aid qid ans_text db =
     db\<lparr>answers := answers db @
       [\<lparr>ans_id = next_id (map ans_id (answers db)), ans_assessment_id = aid,
         ans_question_id = qid, ans_answer_text = ans_text\<rparr>]\<rparr>"

text \<open>
  \<open>assessment_new\<close> (route \<open>/assessments/new/template_id\<close>). The question list is read
  before the method is looked at. On a POST with a truthy name the assessment is added
  and flushed, which fixes its id; the loop \<open>for q in questions\<close> adds one answer for
  each question read, and the single \<open>commit\<close> that follows publishes the assessment
  and its answers together. The clock value \<open>utcnow\<close> is the default of \<open>created_at\<close>.
  Every return before the commit has written nothing.
\<close>

definition assessment_new ::
  "bool \<Rightarrow> http_method \<Rightarrow> nat \<Rightarrow> form \<Rightarrow> int \<Rightarrow> database \<Rightarrow> database \<times> response" where
  "assessment_new logged_in method template_id form utcnow db =
     (if \<not> logged_in then (db, Unauthorized)
      else case get_template db template_id of
        Inl failure \<Rightarrow> (db, failure)
      | Inr template \<Rightarrow>
         (let qs = questions_of db (t_id template) in
          if method = POST then
            (let name = form ''assessment_name'';
                 vendor_name = form ''vendor_name'';
                 product_name = form ''product_name''
             in case name of
                  None \<Rightarrow> (db, Redirect (Ep_assessment_new (t_id template))
                                 [(''Assessment name is required.'', ''danger'')])
                | Some n \<Rightarrow>
                    if n = [] then
                      (db, Redirect (Ep_assessment_new (t_id template))
                             [(''Assessment name is required.'', ''danger'')])
                    else
                      (let aid = next_id (map a_id (assessments db));
                           db1 = db\<lparr>assessments := assessments db @
                                   [\<lparr>a_id = aid, a_template_id = t_id template, a_name = n,
                                     a_vendor_name = vendor_name,
                                     a_product_name = product_name,
                                     a_created_at = utcnow\<rparr>]\<rparr>;
                           db2 = fold (\<lambda>q. add_answer aid (q_id q) (form (field_name (q_id q))))
                                   qs db1
                       in (db2, Redirect (Ep_assessment_view aid)
                                  [(''Assessment saved.'', ''success'')])))
          else (db, Render (Assessment_new_html template qs))))"

text \<open>
  The dict comprehension \<open>{ans.question_id: ans for ans in assessment.answers}\<close>: a later
  answer for the same question id replaces an earlier one.
\<close>

definition answers_by_question :: "answer list \<Rightarrow> nat \<rightharpoonup> answer" where
  "answers_by_question xs = fold (\<lambda>ans m. m(ans_question_id ans \<mapsto> ans)) xs Map.empty"

definition assessment_view :: "bool \<Rightarrow> nat \<Rightarrow> database \<Rightarrow> database \<times> response" where
  "assessment_view logged_in assessment_id db =
     (if \<not> logged_in then (db, Unauthorized)
      else case get_assessment db assessment_id of
        Inl failure \<Rightarrow> (db, failure)
      | Inr a \<Rightarrow>
          (db, Render (Assessment_view_html a (answers_by_question (assessment_answers db a)))))"

section \<open>Registration\<close>

text \<open>
  \<open>register\<close> (route \<open>/register\<close>, no login needed). \<open>generate_password_hash\<close> is
  werkzeug's and is a parameter here. The handler tests no field for presence:
  \<^item> \<open>filter_by(username=None)\<close> compares with NULL and finds no row;
  \<^item> \<open>user.set_password(None)\<close> raises inside the hashing function, which needs a string;
  \<^item> with a password but no username, the \<open>INSERT\<close> of \<open>commit\<close> violates
    \<open>nullable=False\<close> of \<open>users.username\<close> and raises.
  An empty string is an ordinary value for all three steps.
\<close>

definition register ::
  "(string \<Rightarrow> string) \<Rightarrow> http_method \<Rightarrow> form \<Rightarrow> database \<Rightarrow> database \<times> response" where
  "register generate_password_hash method form db =
     (if method = POST then
        (let username = form ''username'';
             password = form ''password''
         in if find (\<lambda>u. Some (u_username u) = username) (users db) \<noteq> None then
              (db, Redirect Ep_register [(''Username already exists'', ''danger'')])
            else case password of
              None \<Rightarrow> (db, ServerError)
            | Some pw \<Rightarrow>
               (case username of
                  None \<Rightarrow> (db, ServerError)
                | Some un \<Rightarrow>
                    (db\<lparr>users := users db @
                        [\<lparr>u_id = next_id (map u_id (users db)), u_username = un,
                          u_password_hash = generate_password_hash pw\<rparr>]\<rparr>,
                     Redirect Ep_login
                       [(''User created successfully. Please login.'', ''success'')])))
      else (db, Render Register_html))"

section \<open>The seed\<close>

definition dd_questions :: "string list" where
  "dd_questions =
     [''What is the legal name of the vendor?'',
      ''Describe the services the vendor will provide.'',
      ''Will the vendor process personal data?'',
      ''Will the vendor process special categories of personal data?'',
      ''Where will the data be stored and processed?'',
      ''Does the vendor have security certifications?'']"

definition dpia_questions :: "string list" where
  "dpia_questions =
     [''Describe the processing activity.'',
      ''What types of personal data are processed?'',
      ''Who are the data subjects?'',
      ''What risks exist?'',
      ''What safeguards are implemented?'',
      ''Any data transfer outside the EEA?'']"

definition add_template :: "string \<Rightarrow> string \<Rightarrow> string option \<Rightarrow> database \<Rightarrow> database" where
  "add_template name ty descr db =
     db\<lparr>templates := templates db @
       [\<lparr>t_id = next_id (map t_id (templates db)), t_name = name, t_template_type = ty,
         t_description = descr\<rparr>]\<rparr>"

text \<open>
  \<open>seed_default_templates\<close>, called once at start-up after \<open>db.create_all()\<close>. Each
  template is flushed before its questions are made, so the questions carry its id; one
  commit ends the function.
\<close>

definition seed_default_templates :: "database \<Rightarrow> database" where
  "seed_default_templates db =
     (if length (templates db) > 0 then db
      else
        (let due_diligence_id = next_id (map t_id (templates db));
             db1 = add_template ''Third-Party Due Diligence Assessment'' ''Due Diligence''
                     (Some ''Basic vendor due diligence questionnaire.'') db;
             db2 = fold (\<lambda>q. add_question due_diligence_id q None (Some ''textarea''))
                     dd_questions db1;
             dpia_id = next_id (map t_id (templates db2));
             db3 = add_template ''Data Protection Impact Assessment (DPIA)'' ''DPIA''
                     (Some ''High-level DPIA for internal products.'') db2;
             db4 = fold (\<lambda>q. add_question dpia_id q None (Some ''textarea''))
                     dpia_questions db3
         in db4))"

section \<open>Well-formed databases\<close>

text \<open>
  What the schema and the handlers keep true of the tables: in each table the primary
  keys grow along the scan order (so they are distinct), every question belongs to a
  stored template and every answer to a stored assessment. An answer may name a
  question that is gone.
\<close>

definition db_ok :: "database \<Rightarrow> bool" where
  "db_ok db =
     (sorted_wrt (<) (map u_id (users db)) \<and>
      sorted_wrt (<) (map t_id (templates db)) \<and>
      sorted_wrt (<) (map q_id (questions db)) \<and>
      sorted_wrt (<) (map a_id (assessments db)) \<and>
      sorted_wrt (<) (map ans_id (answers db)) \<and>
      list_all (\<lambda>q. q_template_id q \<in> set (map t_id (templates db))) (questions db) \<and>
      list_all (\<lambda>x. ans_assessment_id x \<in> set (map a_id (assessments db))) (answers db))"

text \<open>
  The databases the program can hold: the seeded empty database, and whatever a handler
  or a restart makes of one of them.
\<close>

inductive reachable :: "database \<Rightarrow> bool" where
  startup: "reachable (seed_default_templates empty_db)"
| restart: "reachable db \<Longrightarrow> reachable (seed_default_templates db)"
| by_register: "reachable db \<Longrightarrow> reachable (fst (register h m f db))"
| by_template_new: "reachable db \<Longrightarrow> reachable (fst (template_new li m f db))"
| by_template_edit: "reachable db \<Longrightarrow> reachable (fst (template_edit li m tid f db))"
| by_question_delete: "reachable db \<Longrightarrow> reachable (fst (question_delete li tid qid db))"
| by_question_edit: "reachable db \<Longrightarrow> reachable (fst (question_edit li m tid qid f db))"
| by_assessment_new: "reachable db \<Longrightarrow> reachable (fst (assessment_new li m tid f now db))"

section \<open>A database to run the handlers on\<close>

text \<open>
  One user, two templates, three questions (two of them on template 1), two assessments
  of template 1 taken at different times, and the two answers of the first assessment.
\<close>

definition sample_db :: database where
  "sample_db =
     \<lparr>users = [\<lparr>u_id = 1, u_username = ''alice'', u_password_hash = ''h1''\<rparr>],
      templates =
        [\<lparr>t_id = 1, t_name = ''Vendor Check'', t_template_type = ''Due Diligence'',
          t_description = None\<rparr>,
         \<lparr>t_id = 2, t_name = ''Internal'', t_template_type = ''DPIA'',
          t_description = Some ''Products''\<rparr>],
      questions =
        [\<lparr>q_id = 1, q_template_id = 1, q_text = ''Data stored where?'',
          q_help_text = Some ''Region'', q_required = Some True,
          q_question_type = Some ''text'', q_options_json = None\<rparr>,
         \<lparr>q_id = 2, q_template_id = 1, q_text = ''Who has access?'',
          q_help_text = None, q_required = Some True,
          q_question_type = Some ''textarea'', q_options_json = None\<rparr>,
         \<lparr>q_id = 3, q_template_id = 2, q_text = ''What risks exist?'',
          q_help_text = None, q_required = Some True,
          q_question_type = Some ''textarea'', q_options_json = None\<rparr>],
      assessments =
        [\<lparr>a_id = 1, a_template_id = 1, a_name = ''First'', a_vendor_name = Some ''Acme'',
          a_product_name = None, a_created_at = 100\<rparr>,
         \<lparr>a_id = 2, a_template_id = 1, a_name = ''Second'', a_vendor_name = None,
          a_product_name = None, a_created_at = 200\<rparr>],
      answers =
        [\<lparr>ans_id = 1, ans_assessment_id = 1, ans_question_id = 1,
          ans_answer_text = Some ''EU only''\<rparr>,
         \<lparr>ans_id = 2, ans_assessment_id = 1, ans_question_id = 2,
          ans_answer_text = None\<rparr>]\<rparr>"


section \<open>Fresh ids and the invariant\<close>

lemma fold_max_ge: "(a::nat) \<le> fold max xs a"
  by (induction xs arbitrary: a) (auto intro: order_trans [OF max.cobounded2])

lemma fold_max_mem: "x \<in> set xs \<Longrightarrow> (x::nat) \<le> fold max xs a"
proof (induction xs arbitrary: a)
  case Nil
  then show ?case by simp
next
  case (Cons y ys)
  show ?case
  proof (cases "x = y")
    case True
    have "x \<le> max y a" using True by simp
    also have "\<dots> \<le> fold max ys (max y a)" by (rule fold_max_ge)
    finally show ?thesis by simp
  next
    case False
    with Cons.prems have "x \<in> set ys" by simp
    then show ?thesis using Cons.IH by simp
  qed
qed

lemma next_id_fresh: "x \<in> set ids \<Longrightarrow> x < next_id ids"
  unfolding next_id_def using fold_max_mem [of x ids 0] by simp

lemma next_id_notin: "next_id ids \<notin> set ids"
  using next_id_fresh [of "next_id ids" ids] by auto

lemma sorted_wrt_snoc_id:
  "sorted_wrt (<) ids \<Longrightarrow> sorted_wrt (<) (ids @ [next_id ids])"
  by (auto simp: sorted_wrt_append next_id_fresh)

lemma get_or_404_Inr:
  "get_or_404 key rows i = Inr r \<longleftrightarrow>
     i \<le> sqlite_max_int \<and> find (\<lambda>x. key x = i) rows = Some r"
  by (auto simp: get_or_404_def split: option.splits)

lemma get_or_404_NotFound:
  "get_or_404 key rows i = Inl NotFound \<longleftrightarrow>
     i \<le> sqlite_max_int \<and> i \<notin> set (map key rows)"
proof (cases "find (\<lambda>x. key x = i) rows")
  case None
  then have "i \<notin> set (map key rows)"
    by (auto simp: find_None_iff)
  with None show ?thesis by (auto simp: get_or_404_def)
next
  case (Some r)
  then have "r \<in> set rows \<and> key r = i"
    by (auto simp: find_Some_iff)
  then have "i \<in> set (map key rows)" by auto
  with Some show ?thesis by (simp add: get_or_404_def)
qed

lemma get_or_404_ServerError:
  "get_or_404 key rows i = Inl ServerError \<longleftrightarrow> sqlite_max_int < i"
  by (auto simp: get_or_404_def split: option.splits)

lemma get_or_404_Inl:
  "get_or_404 key rows i = Inl r \<Longrightarrow> r = NotFound \<or> r = ServerError"
  by (auto simp: get_or_404_def split: option.splits if_splits)

lemma get_template_InrD:
  "get_template db i = Inr t \<Longrightarrow> t \<in> set (templates db) \<and> t_id t = i"
  by (auto simp: get_template_def get_or_404_Inr find_Some_iff)

lemma get_question_InrD:
  "get_question db i = Inr q \<Longrightarrow> q \<in> set (questions db) \<and> q_id q = i"
  by (auto simp: get_question_def get_or_404_Inr find_Some_iff)

lemma get_assessment_InrD:
  "get_assessment db i = Inr a \<Longrightarrow> a \<in> set (assessments db) \<and> a_id a = i"
  by (auto simp: get_assessment_def get_or_404_Inr find_Some_iff)

lemma db_ok_empty: "db_ok empty_db"
  by (simp add: db_ok_def empty_db_def)

lemma db_ok_add_question:
  "db_ok db \<Longrightarrow> tid \<in> set (map t_id (templates db)) \<Longrightarrow> db_ok (add_question tid txt hlp ty db)"
  by (simp add: db_ok_def add_question_def sorted_wrt_snoc_id)

lemma templates_add_question [simp]:
  "templates (add_question tid txt hlp ty db) = templates db"
  by (simp add: add_question_def)

lemma db_ok_fold_add_question:
  "db_ok db \<Longrightarrow> tid \<in> set (map t_id (templates db)) \<Longrightarrow>
     db_ok (fold (\<lambda>q. add_question tid (f q) (g q) (h q)) qs db)"
  by (induction qs arbitrary: db) (simp_all add: db_ok_add_question)

lemma db_ok_add_template: "db_ok db \<Longrightarrow> db_ok (add_template n ty d db)"
  by (auto simp: db_ok_def add_template_def sorted_wrt_snoc_id list_all_iff)

lemma db_ok_add_answer:
  "db_ok db \<Longrightarrow> aid \<in> set (map a_id (assessments db)) \<Longrightarrow> db_ok (add_answer aid qid txt db)"
  by (simp add: db_ok_def add_answer_def sorted_wrt_snoc_id)

lemma assessments_add_answer [simp]:
  "assessments (add_answer aid qid txt db) = assessments db"
  by (simp add: add_answer_def)

lemma db_ok_fold_add_answer:
  "db_ok db \<Longrightarrow> aid \<in> set (map a_id (assessments db)) \<Longrightarrow>
     db_ok (fold (\<lambda>q. add_answer aid (f q) (g q)) qs db)"
  by (induction qs arbitrary: db) (simp_all add: db_ok_add_answer)

lemma templates_fold_add_question [simp]:
  "templates (fold (\<lambda>q. add_question tid (f q) (g q) (h q)) qs db) = templates db"
  by (induction qs arbitrary: db) simp_all

lemma db_ok_seed: "db_ok db \<Longrightarrow> db_ok (seed_default_templates db)"
proof (cases "0 < length (templates db)")
  case True
  assume "db_ok db"
  with True show ?thesis by (simp add: seed_default_templates_def)
next
  case False
  assume ok: "db_ok db"
  define i1 where "i1 = next_id (map t_id (templates db))"
  define db1 where "db1 = add_template ''Third-Party Due Diligence Assessment''
    ''Due Diligence'' (Some ''Basic vendor due diligence questionnaire.'') db"
  define db2 where "db2 = fold (\<lambda>q. add_question i1 q None (Some ''textarea'')) dd_questions db1"
  define i2 where "i2 = next_id (map t_id (templates db2))"
  define db3 where "db3 = add_template ''Data Protection Impact Assessment (DPIA)''
    ''DPIA'' (Some ''High-level DPIA for internal products.'') db2"
  define db4 where "db4 = fold (\<lambda>q. add_question i2 q None (Some ''textarea'')) dpia_questions db3"
  have ok1: "db_ok db1"
    unfolding db1_def using ok by (rule db_ok_add_template)
  have m1: "i1 \<in> set (map t_id (templates db1))"
    by (simp add: db1_def i1_def add_template_def)
  have ok2: "db_ok db2"
    unfolding db2_def using ok1 m1 by (rule db_ok_fold_add_question)
  have ok3: "db_ok db3"
    unfolding db3_def using ok2 by (rule db_ok_add_template)
  have m2: "i2 \<in> set (map t_id (templates db3))"
    by (simp add: db3_def i2_def add_template_def)
  have ok4: "db_ok db4"
    unfolding db4_def using ok3 m2 by (rule db_ok_fold_add_question)
  have "seed_default_templates db = db4"
    using False
    by (simp add: seed_default_templates_def Let_def db4_def db3_def db2_def db1_def i1_def i2_def)
  with ok4 show ?thesis by simp
qed

lemma db_ok_register: "db_ok db \<Longrightarrow> db_ok (fst (register h m f db))"
  by (auto simp: register_def Let_def db_ok_def sorted_wrt_snoc_id split: option.splits)

lemma db_ok_template_new: "db_ok db \<Longrightarrow> db_ok (fst (template_new li m f db))"
  by (auto simp: template_new_def Let_def db_ok_def sorted_wrt_snoc_id list_all_iff split: option.splits)

lemma db_ok_template_edit: "db_ok db \<Longrightarrow> db_ok (fst (template_edit li m tid f db))"
  by (auto simp: template_edit_def Let_def db_ok_add_question dest!: get_template_InrD
      split: option.splits sum.splits)

lemma db_ok_question_delete: "db_ok db \<Longrightarrow> db_ok (fst (question_delete li tid qid db))"
  by (auto simp: question_delete_def db_ok_def list_all_iff sorted_wrt_map sorted_wrt_filter
      split: sum.splits)

lemma db_ok_question_edit: "db_ok db \<Longrightarrow> db_ok (fst (question_edit li m tid qid f db))"
  by (auto simp: question_edit_def db_ok_def list_all_iff comp_def if_distrib [of q_id]
      if_distrib [of q_template_id] cong: if_cong split: option.splits sum.splits)

lemma db_ok_assessment_new: "db_ok db \<Longrightarrow> db_ok (fst (assessment_new li m tid f now db))"
  apply (auto simp: assessment_new_def Let_def split: option.splits sum.splits)
  apply (rule db_ok_fold_add_answer)
   apply (auto simp: db_ok_def sorted_wrt_snoc_id list_all_iff)
  done

lemma reachable_ok: "reachable db \<Longrightarrow> db_ok db"
  by (induction rule: reachable.induct)
     (simp_all add: db_ok_seed db_ok_empty db_ok_register db_ok_template_new db_ok_template_edit
        db_ok_question_delete db_ok_question_edit db_ok_assessment_new)

section \<open>Lookups after a write\<close>

lemma find_map_key:
  "(\<And>x. f (g x) = f x) \<Longrightarrow> find (\<lambda>x. f x = i) (map g xs) = map_option g (find (\<lambda>x. f x = i) xs)"
  by (induction xs) simp_all

lemma find_filter_other:
  "i \<noteq> j \<Longrightarrow> find (\<lambda>x. f x = i) (filter (\<lambda>x. f x \<noteq> j) xs) = find (\<lambda>x. f x = i) xs"
  by (induction xs) simp_all

lemma find_filter_same:
  "find (\<lambda>x. f x = j) (filter (\<lambda>x. f x \<noteq> j) xs) = None"
  by (induction xs) simp_all

lemma length_filter_key:
  "distinct (map f xs) \<Longrightarrow> x \<in> set xs \<Longrightarrow>
     Suc (length (filter (\<lambda>y. f y \<noteq> f x) xs)) = length xs"
proof (induction xs)
  case Nil
  then show ?case by simp
next
  case (Cons y ys)
  show ?case
  proof (cases "f y = f x")
    case True
    with Cons.prems have "f x \<notin> f ` set ys" by simp
    then have "filter (\<lambda>z. f z \<noteq> f x) ys = ys"
      by (auto simp: filter_id_conv image_iff)
    with True show ?thesis by simp
  next
    case False
    with Cons.prems have "x \<in> set ys" "distinct (map f ys)" by auto
    with Cons.IH False show ?thesis by simp
  qed
qed

lemma db_ok_distinct_q: "db_ok db \<Longrightarrow> distinct (map q_id (questions db))"
  by (simp add: db_ok_def strict_sorted_iff)

lemma get_or_404_map_key:
  "(\<And>x. key (g x) = key x) \<Longrightarrow>
     get_or_404 key (map g rows) i = map_sum (\<lambda>r. r) g (get_or_404 key rows i)"
  by (simp add: get_or_404_def find_map_key split: option.splits)

lemma get_question_after_edit:
  "get_question
     (db\<lparr>questions := map (\<lambda>x. if q_id x = j then x\<lparr>q_text := a, q_help_text := b,
                                   q_question_type := c\<rparr> else x) (questions db)\<rparr>) i
   = map_sum (\<lambda>r. r) (\<lambda>x. if q_id x = j then x\<lparr>q_text := a, q_help_text := b,
                                   q_question_type := c\<rparr> else x) (get_question db i)"
  unfolding get_question_def by (simp add: get_or_404_map_key)

lemma get_or_404_filter_other:
  "i \<noteq> j \<Longrightarrow>
     get_or_404 key (filter (\<lambda>x. key x \<noteq> j) rows) i = get_or_404 key rows i"
  by (simp add: get_or_404_def find_filter_other)

lemma get_or_404_filter_same:
  "j \<le> sqlite_max_int \<Longrightarrow>
     get_or_404 key (filter (\<lambda>x. key x \<noteq> j) rows) j = Inl NotFound"
  by (simp add: get_or_404_def find_filter_same)

lemma sorted_desc_precedes:
  assumes s: "sorted (map (\<lambda>a. - a_created_at a) xs)"
    and i: "i < length xs" and j: "j < length xs"
    and lt: "a_created_at (xs ! j) < a_created_at (xs ! i)"
  shows "i < j"
proof (rule ccontr)
  assume "\<not> i < j"
  then have "j \<le> i" by simp
  with s i have "map (\<lambda>a. - a_created_at a) xs ! j \<le> map (\<lambda>a. - a_created_at a) xs ! i"
    by (simp add: sorted_iff_nth_mono del: nth_map)
  with i j have "a_created_at (xs ! i) \<le> a_created_at (xs ! j)" by simp
  with lt show False by simp
qed

section \<open>The seed on a database without templates\<close>

lemma db_ok_no_templates: "db_ok db \<Longrightarrow> templates db = [] \<Longrightarrow> questions db = []"
  by (cases "questions db") (simp_all add: db_ok_def)

lemma seed_nonempty: "templates (seed_default_templates db) \<noteq> []"
  by (simp add: seed_default_templates_def Let_def add_template_def)

lemma seed_on_empty:
  "templates db = [] \<Longrightarrow> questions db = [] \<Longrightarrow>
   seed_default_templates db =
     db\<lparr>templates :=
          [\<lparr>t_id = 1, t_name = ''Third-Party Due Diligence Assessment'',
            t_template_type = ''Due Diligence'',
            t_description = Some ''Basic vendor due diligence questionnaire.''\<rparr>,
           \<lparr>t_id = 2, t_name = ''Data Protection Impact Assessment (DPIA)'',
            t_template_type = ''DPIA'',
            t_description = Some ''High-level DPIA for internal products.''\<rparr>],
        questions :=
          map (\<lambda>(i, s). \<lparr>q_id = i, q_template_id = 1, q_text = s, q_help_text = None,
                 q_required = Some True, q_question_type = Some ''textarea'',
                 q_options_json = None\<rparr>)
            [(1, ''What is the legal name of the vendor?''),
             (2, ''Describe the services the vendor will provide.''),
             (3, ''Will the vendor process personal data?''),
             (4, ''Will the vendor process special categories of personal data?''),
             (5, ''Where will the data be stored and processed?''),
             (6, ''Does the vendor have security certifications?'')] @
          map (\<lambda>(i, s). \<lparr>q_id = i, q_template_id = 2, q_text = s, q_help_text = None,
                 q_required = Some True, q_question_type = Some ''textarea'',
                 q_options_json = None\<rparr>)
            [(7, ''Describe the processing activity.''),
             (8, ''What types of personal data are processed?''),
             (9, ''Who are the data subjects?''),
             (10, ''What risks exist?''),
             (11, ''What safeguards are implemented?''),
             (12, ''Any data transfer outside the EEA?'')]\<rparr>"
  by (simp add: seed_default_templates_def Let_def add_template_def add_question_def
        dd_questions_def dpia_questions_def next_id_def)

section \<open>The answers written with an assessment\<close>

lemma fold_add_answer_frame:
  "fold (\<lambda>q. add_answer aid (f q) (g q)) qs db
     = db\<lparr>answers := answers (fold (\<lambda>q. add_answer aid (f q) (g q)) qs db)\<rparr>"
proof (induction qs arbitrary: db)
  case Nil
  show ?case by simp
next
  case (Cons q qs)
  have "fold (\<lambda>q. add_answer aid (f q) (g q)) (q # qs) db
          = fold (\<lambda>q. add_answer aid (f q) (g q)) qs (add_answer aid (f q) (g q) db)"
    by simp
  also have "\<dots> = (add_answer aid (f q) (g q) db)
      \<lparr>answers := answers (fold (\<lambda>q. add_answer aid (f q) (g q)) qs (add_answer aid (f q) (g q) db))\<rparr>"
    by (rule Cons.IH)
  also have "\<dots> = db\<lparr>answers := answers (fold (\<lambda>q. add_answer aid (f q) (g q)) (q # qs) db)\<rparr>"
    by (simp add: add_answer_def)
  finally show ?case .
qed

lemma fold_add_answer_rows:
  "\<exists>new. answers (fold (\<lambda>q. add_answer aid (f q) (g q)) qs db) = answers db @ new \<and>
         map (\<lambda>x. (ans_assessment_id x, ans_question_id x, ans_answer_text x)) new
           = map (\<lambda>q. (aid, f q, g q)) qs"
proof (induction qs arbitrary: db)
  case Nil
  show ?case by simp
next
  case (Cons q qs)
  let ?db1 = "add_answer aid (f q) (g q) db"
  from Cons.IH [of ?db1] obtain new where
    a: "answers (fold (\<lambda>q. add_answer aid (f q) (g q)) qs ?db1) = answers ?db1 @ new" and
    m: "map (\<lambda>x. (ans_assessment_id x, ans_question_id x, ans_answer_text x)) new
           = map (\<lambda>q. (aid, f q, g q)) qs"
    by blast
  let ?row = "\<lparr>ans_id = next_id (map ans_id (answers db)), ans_assessment_id = aid,
                ans_question_id = f q, ans_answer_text = g q\<rparr>"
  have "answers (fold (\<lambda>q. add_answer aid (f q) (g q)) (q # qs) db) = answers db @ (?row # new)"
    using a by (simp add: add_answer_def)
  moreover have "map (\<lambda>x. (ans_assessment_id x, ans_question_id x, ans_answer_text x)) (?row # new)
           = map (\<lambda>q. (aid, f q, g q)) (q # qs)"
    using m by simp
  ultimately show ?case by blast
qed










section \<open>Field names\<close>











section \<open>Adding a question\<close>

text \<open>
  C5. For a logged-in request, \<open>template_edit\<close> answers 404 only when the template is
  absent: exactly when the id of the path is a valid row id that no template carries
  (an id beyond the 64-bit range ends in status 500 instead). For an existing template,
  a POST whose \<open>question_text\<close> is blank (not submitted, or the empty string) changes
  nothing in the database, so the template's question list and question count stay as
  they were, and it ends in the ordinary redirect to the template's view, with no error
  flashed.
\<close>

theorem add_question_blank_noop:
  "logged_in \<Longrightarrow>
     (snd (template_edit logged_in method tid form db) = NotFound
        \<longleftrightarrow> tid \<le> sqlite_max_int \<and> tid \<notin> set (map t_id (templates db))) \<and>
     (snd (template_edit logged_in method tid form db) = ServerError
        \<longleftrightarrow> sqlite_max_int < tid) \<and>
     (\<forall>t. get_template db tid = Inr t \<and> blank (form ''question_text'') \<longrightarrow>
        template_edit logged_in POST tid form db = (db, Redirect (Ep_template_edit (t_id t)) []) \<and>
        questions_of (fst (template_edit logged_in POST tid form db)) tid = questions_of db tid \<and>
        length (questions_of (fst (template_edit logged_in POST tid form db)) tid)
          = length (questions_of db tid))"
proof (intro conjI allI impI)
  assume li: "logged_in"
  show "snd (template_edit logged_in method tid form db) = NotFound
        \<longleftrightarrow> tid \<le> sqlite_max_int \<and> tid \<notin> set (map t_id (templates db))"
  proof (cases "get_template db tid")
    case (Inl r)
    then have "r = NotFound \<or> r = ServerError"
      by (auto simp: get_template_def dest: get_or_404_Inl)
    with Inl li show ?thesis
      using get_or_404_NotFound [of t_id "templates db" tid]
        get_or_404_ServerError [of t_id "templates db" tid]
      by (auto simp: template_edit_def get_template_def)
  next
    case (Inr t)
    then have "tid \<in> set (map t_id (templates db))"
      by (auto dest: get_template_InrD)
    with Inr li show ?thesis
      by (auto simp: template_edit_def Let_def split: option.splits)
  qed
  show "snd (template_edit logged_in method tid form db) = ServerError
        \<longleftrightarrow> sqlite_max_int < tid"
  proof (cases "get_template db tid")
    case (Inl r)
    then have "r = NotFound \<or> r = ServerError"
      by (auto simp: get_template_def dest: get_or_404_Inl)
    with Inl li show ?thesis
      using get_or_404_NotFound [of t_id "templates db" tid]
        get_or_404_ServerError [of t_id "templates db" tid]
      by (auto simp: template_edit_def get_template_def)
  next
    case (Inr t)
    then have "tid \<le> sqlite_max_int"
      by (simp add: get_template_def get_or_404_Inr)
    with Inr li show ?thesis
      by (auto simp: template_edit_def Let_def split: option.splits)
  qed
next
  fix t
  assume li: "logged_in" and h: "get_template db tid = Inr t \<and> blank (form ''question_text'')"
  then have r: "template_edit logged_in POST tid form db
      = (db, Redirect (Ep_template_edit (t_id t)) [])"
    by (auto simp: template_edit_def blank_def Let_def split: option.splits)
  show "template_edit logged_in POST tid form db
      = (db, Redirect (Ep_template_edit (t_id t)) [])"
    by (rule r)
  show "questions_of (fst (template_edit logged_in POST tid form db)) tid = questions_of db tid"
    by (simp add: r)
  show "length (questions_of (fst (template_edit logged_in POST tid form db)) tid)
          = length (questions_of db tid)"
    by (simp add: r)
qed

theorem add_question_blank_noop_witness:
  "template_edit True POST 1 [''question_text'' \<mapsto> ''''] sample_db
     = (sample_db, Redirect (Ep_template_edit 1) []) \<and>
   questions_of (fst (template_edit True POST 1 [''question_text'' \<mapsto> ''''] sample_db)) 1
     = questions_of sample_db 1 \<and>
   length (questions_of (fst (template_edit True POST 1 [''question_text'' \<mapsto> ''''] sample_db)) 1)
     = 2 \<and>
   snd (template_edit True POST 9 [''question_text'' \<mapsto> ''''] sample_db) = NotFound \<and>
   snd (template_edit True POST 9223372036854775808 [''question_text'' \<mapsto> ''''] sample_db)
     = ServerError"
proof -
  let ?f = "[''question_text'' \<mapsto> '''']"
  have t: "get_template sample_db 1 = Inr (hd (templates sample_db))"
    by (simp add: get_template_def get_or_404_def sqlite_max_int_def sample_db_def)
  have b: "blank (?f ''question_text'')"
    by (simp add: blank_def)
  have n: "(9::nat) \<le> sqlite_max_int \<and> 9 \<notin> set (map t_id (templates sample_db))"
    by (simp add: sqlite_max_int_def sample_db_def)
  have big: "sqlite_max_int < 9223372036854775808"
    by (simp add: sqlite_max_int_def)
  have i: "t_id (hd (templates sample_db)) = 1"
    by (simp add: sample_db_def)
  have l: "length (questions_of sample_db 1) = 2"
    by (simp add: questions_of_def sample_db_def)
  from add_question_blank_noop [of True POST 1 ?f sample_db] t b
  have one: "template_edit True POST 1 ?f sample_db
       = (sample_db, Redirect (Ep_template_edit (t_id (hd (templates sample_db)))) []) \<and>
     questions_of (fst (template_edit True POST 1 ?f sample_db)) 1 = questions_of sample_db 1 \<and>
     length (questions_of (fst (template_edit True POST 1 ?f sample_db)) 1)
       = length (questions_of sample_db 1)"
    by blast
  from add_question_blank_noop [of True POST 9 ?f sample_db] n
  have two: "snd (template_edit True POST 9 ?f sample_db) = NotFound"
    by blast
  from add_question_blank_noop [of True POST 9223372036854775808 ?f sample_db] big
  have three: "snd (template_edit True POST 9223372036854775808 ?f sample_db) = ServerError"
    by blast
  from one two three show ?thesis unfolding i l by blast
qed

section \<open>Deleting a question\<close>

text \<open>
  C6, as the code has it. For a logged-in request, \<open>question_delete\<close> answers 404 and
  writes nothing when the question id is a valid row id that no question carries; a
  question id beyond the 64-bit range ends in status 500, also without a write. When
  the question exists, it is gone afterwards and every other question is still found
  (in a well-formed database exactly one row left the table), while the tables of
  answers and assessments are the same as before: each answer recorded against the
  deleted question keeps its content and its assessment, and \<open>assessment_view\<close> shows
  every assessment as it did before the deletion.
\<close>

theorem question_delete_keeps_answers:
  "logged_in \<Longrightarrow>
     (qid \<le> sqlite_max_int \<and> qid \<notin> set (map q_id (questions db)) \<longrightarrow>
        question_delete logged_in tid qid db = (db, NotFound)) \<and>
     (sqlite_max_int < qid \<longrightarrow>
        question_delete logged_in tid qid db = (db, ServerError)) \<and>
     (\<forall>q. get_question db qid = Inr q \<longrightarrow>
        snd (question_delete logged_in tid qid db)
          = Redirect (Ep_template_edit tid) [(''Question deleted.'', ''info'')] \<and>
        get_question (fst (question_delete logged_in tid qid db)) qid = Inl NotFound \<and>
        (\<forall>i. i \<noteq> qid \<longrightarrow>
           get_question (fst (question_delete logged_in tid qid db)) i = get_question db i) \<and>
        (db_ok db \<longrightarrow>
           Suc (length (questions (fst (question_delete logged_in tid qid db))))
             = length (questions db)) \<and>
        answers (fst (question_delete logged_in tid qid db)) = answers db \<and>
        assessments (fst (question_delete logged_in tid qid db)) = assessments db \<and>
        (\<forall>aid. snd (assessment_view logged_in aid (fst (question_delete logged_in tid qid db)))
             = snd (assessment_view logged_in aid db)))"
proof (intro conjI allI impI)
  assume li: "logged_in"
    and "qid \<le> sqlite_max_int \<and> qid \<notin> set (map q_id (questions db))"
  then have "get_question db qid = Inl NotFound"
    by (simp add: get_question_def get_or_404_NotFound)
  with li show "question_delete logged_in tid qid db = (db, NotFound)"
    by (simp add: question_delete_def)
next
  assume li: "logged_in" and "sqlite_max_int < qid"
  then have "get_question db qid = Inl ServerError"
    by (simp add: get_question_def get_or_404_ServerError)
  with li show "question_delete logged_in tid qid db = (db, ServerError)"
    by (simp add: question_delete_def)
next
  fix q
  assume li: "logged_in" and found: "get_question db qid = Inr q"
  from found have q: "q \<in> set (questions db)" "q_id q = qid"
    by (auto dest: get_question_InrD)
  from found have range: "qid \<le> sqlite_max_int"
    by (simp add: get_question_def get_or_404_Inr)
  define db' where "db' = db\<lparr>questions := filter (\<lambda>x. q_id x \<noteq> qid) (questions db)\<rparr>"
  have res: "question_delete logged_in tid qid db
               = (db', Redirect (Ep_template_edit tid) [(''Question deleted.'', ''info'')])"
    using li found q by (simp add: question_delete_def db'_def)
  show "snd (question_delete logged_in tid qid db)
          = Redirect (Ep_template_edit tid) [(''Question deleted.'', ''info'')]"
    by (simp add: res)
  show "get_question (fst (question_delete logged_in tid qid db)) qid = Inl NotFound"
    using range by (simp add: res get_question_def db'_def get_or_404_filter_same)
  show "answers (fst (question_delete logged_in tid qid db)) = answers db"
    by (simp add: res db'_def)
  show "assessments (fst (question_delete logged_in tid qid db)) = assessments db"
    by (simp add: res db'_def)
  {
    fix i
    assume "i \<noteq> qid"
    then show "get_question (fst (question_delete logged_in tid qid db)) i = get_question db i"
      by (simp add: res get_question_def db'_def get_or_404_filter_other)
  }
  {
    assume "db_ok db"
    then have "distinct (map q_id (questions db))"
      by (rule db_ok_distinct_q)
    from length_filter_key [OF this q(1)]
    show "Suc (length (questions (fst (question_delete logged_in tid qid db))))
             = length (questions db)"
      by (simp add: res db'_def q(2))
  }
  {
    fix aid
    show "snd (assessment_view logged_in aid (fst (question_delete logged_in tid qid db)))
             = snd (assessment_view logged_in aid db)"
      by (simp add: res assessment_view_def get_assessment_def assessment_answers_def db'_def
            split: sum.splits)
  }
qed

theorem question_delete_keeps_answers_witness:
  "snd (question_delete True 1 1 sample_db)
     = Redirect (Ep_template_edit 1) [(''Question deleted.'', ''info'')] \<and>
   get_question (fst (question_delete True 1 1 sample_db)) 1 = Inl NotFound \<and>
   get_question (fst (question_delete True 1 1 sample_db)) 2 = get_question sample_db 2 \<and>
   Suc (length (questions (fst (question_delete True 1 1 sample_db)))) = 3 \<and>
   answers (fst (question_delete True 1 1 sample_db)) = answers sample_db \<and>
   [x \<leftarrow> answers (fst (question_delete True 1 1 sample_db)). ans_question_id x = 1]
     = [\<lparr>ans_id = 1, ans_assessment_id = 1, ans_question_id = 1,
         ans_answer_text = Some ''EU only''\<rparr>] \<and>
   snd (assessment_view True 1 (fst (question_delete True 1 1 sample_db)))
     = snd (assessment_view True 1 sample_db) \<and>
   question_delete True 1 9 sample_db = (sample_db, NotFound) \<and>
   question_delete True 1 9223372036854775808 sample_db = (sample_db, ServerError)"
proof -
  have ok: "db_ok sample_db"
    by (simp add: db_ok_def sample_db_def)
  have q: "get_question sample_db 1 = Inr (hd (questions sample_db))"
    by (simp add: get_question_def get_or_404_def sqlite_max_int_def sample_db_def)
  have n: "(9::nat) \<le> sqlite_max_int \<and> 9 \<notin> set (map q_id (questions sample_db))"
    by (simp add: sqlite_max_int_def sample_db_def)
  have big: "sqlite_max_int < 9223372036854775808"
    by (simp add: sqlite_max_int_def)
  have l: "length (questions sample_db) = 3"
    by (simp add: sample_db_def)
  have a: "[x \<leftarrow> answers sample_db. ans_question_id x = 1]
     = [\<lparr>ans_id = 1, ans_assessment_id = 1, ans_question_id = 1,
         ans_answer_text = Some ''EU only''\<rparr>]"
    by (simp add: sample_db_def)
  have two: "(2::nat) \<noteq> 1" by simp
  from question_delete_keeps_answers [of True 1 sample_db 1] q ok two
  have one: "snd (question_delete True 1 1 sample_db)
       = Redirect (Ep_template_edit 1) [(''Question deleted.'', ''info'')] \<and>
     get_question (fst (question_delete True 1 1 sample_db)) 1 = Inl NotFound \<and>
     get_question (fst (question_delete True 1 1 sample_db)) 2 = get_question sample_db 2 \<and>
     Suc (length (questions (fst (question_delete True 1 1 sample_db))))
       = length (questions sample_db) \<and>
     answers (fst (question_delete True 1 1 sample_db)) = answers sample_db \<and>
     snd (assessment_view True 1 (fst (question_delete True 1 1 sample_db)))
       = snd (assessment_view True 1 sample_db)"
    by blast
  then have kept: "[x \<leftarrow> answers (fst (question_delete True 1 1 sample_db)). ans_question_id x = 1]
     = [\<lparr>ans_id = 1, ans_assessment_id = 1, ans_question_id = 1,
         ans_answer_text = Some ''EU only''\<rparr>]"
    using a by metis
  from question_delete_keeps_answers [of True 9 sample_db 1] n
  have absent: "question_delete True 1 9 sample_db = (sample_db, NotFound)"
    by blast
  from question_delete_keeps_answers [of True 9223372036854775808 sample_db 1] big
  have over: "question_delete True 1 9223372036854775808 sample_db = (sample_db, ServerError)"
    by blast
  from one kept absent over show ?thesis unfolding l by blast
qed

text \<open>
  C6 as the spec words it ("fails with NotFoundError when q is absent") does not
  hold of an id beyond the 64-bit range: no question carries the id, and the handler
  ends in status 500.
\<close>

theorem question_delete_absent_counterexample:
  "9223372036854775808 \<notin> set (map q_id (questions sample_db)) \<and>
   snd (question_delete True 1 9223372036854775808 sample_db) = ServerError \<and>
   ServerError \<noteq> NotFound"
  by (simp add: question_delete_def get_question_def get_or_404_def sqlite_max_int_def
        sample_db_def)

section \<open>Editing a question\<close>

text \<open>
  C4, as the code has it. For a logged-in request whose two path ids are valid row ids,
  \<open>question_edit\<close> answers 404 and writes nothing when the question is absent; an id
  beyond the 64-bit range, met by the lookup that reaches it, ends in status 500, also
  without a write. For an existing question, reached through an existing template in
  the path, a POST that carries the field \<open>text\<close> stores exactly the three submitted
  values: \<open>text\<close>, and for \<open>help_text\<close> and \<open>question_type\<close> the value of the form or
  NULL when the field was left out; nothing of the old values is merged in. The other
  columns of the row, the other questions and the other tables are untouched.
\<close>

theorem question_edit_overwrites:
  "logged_in \<Longrightarrow>
     (tid \<le> sqlite_max_int \<and> qid \<le> sqlite_max_int \<and>
      qid \<notin> set (map q_id (questions db)) \<longrightarrow>
        question_edit logged_in method tid qid form db = (db, NotFound)) \<and>
     (sqlite_max_int < tid \<longrightarrow>
        question_edit logged_in method tid qid form db = (db, ServerError)) \<and>
     (\<forall>t. get_template db tid = Inr t \<and> sqlite_max_int < qid \<longrightarrow>
        question_edit logged_in method tid qid form db = (db, ServerError)) \<and>
     (\<forall>t q v.
        get_template db tid = Inr t \<and> get_question db qid = Inr q \<and> form ''text'' = Some v \<longrightarrow>
        snd (question_edit logged_in POST tid qid form db)
          = Redirect (Ep_template_edit tid) [(''Question updated.'', ''success'')] \<and>
        get_question (fst (question_edit logged_in POST tid qid form db)) qid
          = Inr (q\<lparr>q_text := v, q_help_text := form ''help_text'',
                    q_question_type := form ''question_type''\<rparr>) \<and>
        (\<forall>i. i \<noteq> qid \<longrightarrow>
           get_question (fst (question_edit logged_in POST tid qid form db)) i
             = get_question db i) \<and>
        length (questions (fst (question_edit logged_in POST tid qid form db)))
          = length (questions db) \<and>
        templates (fst (question_edit logged_in POST tid qid form db)) = templates db \<and>
        answers (fst (question_edit logged_in POST tid qid form db)) = answers db)"
proof (intro conjI impI allI)
  assume li: "logged_in"
    and h: "tid \<le> sqlite_max_int \<and> qid \<le> sqlite_max_int \<and>
            qid \<notin> set (map q_id (questions db))"
  then have nq: "get_question db qid = Inl NotFound"
    by (simp add: get_question_def get_or_404_NotFound)
  show "question_edit logged_in method tid qid form db = (db, NotFound)"
  proof (cases "get_template db tid")
    case (Inl r)
    from h have "get_template db tid \<noteq> Inl ServerError"
      by (simp add: get_template_def get_or_404_ServerError)
    with Inl have "r = NotFound"
      by (auto simp: get_template_def dest: get_or_404_Inl)
    with Inl li show ?thesis by (simp add: question_edit_def)
  next
    case (Inr t)
    with li nq show ?thesis by (simp add: question_edit_def)
  qed
next
  assume li: "logged_in" and "sqlite_max_int < tid"
  then have "get_template db tid = Inl ServerError"
    by (simp add: get_template_def get_or_404_ServerError)
  with li show "question_edit logged_in method tid qid form db = (db, ServerError)"
    by (simp add: question_edit_def)
next
  fix t
  assume li: "logged_in" and h: "get_template db tid = Inr t \<and> sqlite_max_int < qid"
  then have "get_question db qid = Inl ServerError"
    by (simp add: get_question_def get_or_404_ServerError)
  with li h show "question_edit logged_in method tid qid form db = (db, ServerError)"
    by (simp add: question_edit_def)
next
  fix t q v
  assume li: "logged_in"
    and h: "get_template db tid = Inr t \<and> get_question db qid = Inr q \<and> form ''text'' = Some v"
  from h have qid: "q_id q = qid" by (auto dest: get_question_InrD)
  define g :: "question \<Rightarrow> question" where "g = (\<lambda>x. if q_id x = qid
     then x\<lparr>q_text := v, q_help_text := form ''help_text'',
            q_question_type := form ''question_type''\<rparr> else x)"
  have res: "question_edit logged_in POST tid qid form db
     = (db\<lparr>questions := map g (questions db)\<rparr>,
        Redirect (Ep_template_edit tid) [(''Question updated.'', ''success'')])"
    using li h qid by (simp add: question_edit_def g_def)
  have look: "get_question (db\<lparr>questions := map g (questions db)\<rparr>) i
                = map_sum (\<lambda>r. r) g (get_question db i)" for i
    unfolding g_def by (rule get_question_after_edit)
  show "snd (question_edit logged_in POST tid qid form db)
          = Redirect (Ep_template_edit tid) [(''Question updated.'', ''success'')]"
    by (simp add: res)
  show "get_question (fst (question_edit logged_in POST tid qid form db)) qid
          = Inr (q\<lparr>q_text := v, q_help_text := form ''help_text'',
                    q_question_type := form ''question_type''\<rparr>)"
    using h qid by (simp add: res look) (simp add: g_def)
  show "length (questions (fst (question_edit logged_in POST tid qid form db)))
          = length (questions db)"
    by (simp add: res)
  show "templates (fst (question_edit logged_in POST tid qid form db)) = templates db"
    by (simp add: res)
  show "answers (fst (question_edit logged_in POST tid qid form db)) = answers db"
    by (simp add: res)
  fix i
  assume ne: "i \<noteq> qid"
  show "get_question (fst (question_edit logged_in POST tid qid form db)) i = get_question db i"
  proof (cases "get_question db i")
    case (Inl r)
    then show ?thesis by (simp add: res look)
  next
    case (Inr x)
    then have "q_id x = i" by (auto dest: get_question_InrD)
    with ne Inr have "map_sum (\<lambda>r. r) g (get_question db i) = get_question db i"
      by (simp add: g_def)
    then show ?thesis by (simp add: res look)
  qed
qed

theorem question_edit_overwrites_witness:
  "snd (question_edit True POST 1 1 [''text'' \<mapsto> ''Where is the data?''] sample_db)
     = Redirect (Ep_template_edit 1) [(''Question updated.'', ''success'')] \<and>
   get_question (fst (question_edit True POST 1 1 [''text'' \<mapsto> ''Where is the data?'']
                        sample_db)) 1
     = Inr \<lparr>q_id = 1, q_template_id = 1, q_text = ''Where is the data?'',
             q_help_text = None, q_required = Some True, q_question_type = None,
             q_options_json = None\<rparr> \<and>
   get_question (fst (question_edit True POST 1 1 [''text'' \<mapsto> ''Where is the data?'']
                        sample_db)) 2
     = get_question sample_db 2 \<and>
   question_edit True POST 1 9 [''text'' \<mapsto> ''Where is the data?''] sample_db
     = (sample_db, NotFound) \<and>
   question_edit True POST 9223372036854775808 1 [''text'' \<mapsto> ''Where is the data?'']
       sample_db
     = (sample_db, ServerError) \<and>
   question_edit True POST 1 9223372036854775808 [''text'' \<mapsto> ''Where is the data?'']
       sample_db
     = (sample_db, ServerError)"
proof -
  let ?f = "[''text'' \<mapsto> ''Where is the data?'']"
  have t: "get_template sample_db 1 = Inr (hd (templates sample_db))"
    by (simp add: get_template_def get_or_404_def sqlite_max_int_def sample_db_def)
  have q: "get_question sample_db 1 = Inr (hd (questions sample_db))"
    by (simp add: get_question_def get_or_404_def sqlite_max_int_def sample_db_def)
  have f: "?f ''text'' = Some ''Where is the data?''"
    by simp
  have n: "(1::nat) \<le> sqlite_max_int \<and> (9::nat) \<le> sqlite_max_int \<and>
           9 \<notin> set (map q_id (questions sample_db))"
    by (simp add: sqlite_max_int_def sample_db_def)
  have big: "sqlite_max_int < 9223372036854775808"
    by (simp add: sqlite_max_int_def)
  have u: "(hd (questions sample_db))\<lparr>q_text := ''Where is the data?'',
             q_help_text := ?f ''help_text'', q_question_type := ?f ''question_type''\<rparr>
     = \<lparr>q_id = 1, q_template_id = 1, q_text = ''Where is the data?'',
        q_help_text = None, q_required = Some True, q_question_type = None,
        q_options_json = None\<rparr>"
    by (simp add: sample_db_def)
  have two: "(2::nat) \<noteq> 1" by simp
  from question_edit_overwrites [of True 1 1 sample_db POST ?f] t q f two
  have one: "snd (question_edit True POST 1 1 ?f sample_db)
       = Redirect (Ep_template_edit 1) [(''Question updated.'', ''success'')] \<and>
     get_question (fst (question_edit True POST 1 1 ?f sample_db)) 1
       = Inr ((hd (questions sample_db))\<lparr>q_text := ''Where is the data?'',
             q_help_text := ?f ''help_text'', q_question_type := ?f ''question_type''\<rparr>) \<and>
     get_question (fst (question_edit True POST 1 1 ?f sample_db)) 2 = get_question sample_db 2"
    by blast
  from question_edit_overwrites [of True 1 9 sample_db POST ?f] n
  have absent: "question_edit True POST 1 9 ?f sample_db = (sample_db, NotFound)"
    by blast
  from question_edit_overwrites [of True 9223372036854775808 1 sample_db POST ?f] big
  have over_t: "question_edit True POST 9223372036854775808 1 ?f sample_db
      = (sample_db, ServerError)"
    by blast
  from question_edit_overwrites [of True 1 9223372036854775808 sample_db POST ?f] t big
  have over_q: "question_edit True POST 1 9223372036854775808 ?f sample_db
      = (sample_db, ServerError)"
    by blast
  from one absent over_t over_q show ?thesis unfolding u by blast
qed

text \<open>
  C4 as the spec words it ("fails with NotFoundError when the question is absent") does
  not hold of a question id beyond the 64-bit range, even with an existing template in
  the path: no question carries the id, and the handler ends in status 500.
\<close>

theorem question_edit_absent_counterexample:
  "9223372036854775808 \<notin> set (map q_id (questions sample_db)) \<and>
   snd (question_edit True POST 1 9223372036854775808 [''text'' \<mapsto> ''Where?''] sample_db)
     = ServerError \<and>
   ServerError \<noteq> NotFound"
  by (simp add: question_edit_def get_template_def get_question_def get_or_404_def
        sqlite_max_int_def sample_db_def)

section \<open>The template id in the question routes\<close>

text \<open>
  C10. \<open>question_delete\<close> and \<open>question_edit\<close> find the question by the question id of
  the path alone. For a logged-in request and an existing question, the delete removes
  it whatever the template id of the path is: the one of another template, or one that
  names no template at all. The edit (a POST that carries \<open>text\<close>) rewrites it for every
  template id that names an existing template, the question's own or not. In both cases
  the database written does not depend on the template id.
\<close>

theorem question_routes_ignore_template:
  "logged_in \<Longrightarrow> get_question db qid = Inr q \<Longrightarrow>
     (\<forall>tid.
        fst (question_delete logged_in tid qid db)
          = db\<lparr>questions := filter (\<lambda>x. q_id x \<noteq> qid) (questions db)\<rparr> \<and>
        get_question (fst (question_delete logged_in tid qid db)) qid = Inl NotFound) \<and>
     (\<forall>tid v.
        (\<exists>t. get_template db tid = Inr t) \<and> form ''text'' = Some v \<longrightarrow>
        fst (question_edit logged_in POST tid qid form db)
          = db\<lparr>questions :=
                 map (\<lambda>x. if q_id x = qid
                           then x\<lparr>q_text := v, q_help_text := form ''help_text'',
                                  q_question_type := form ''question_type''\<rparr>
                           else x)
                     (questions db)\<rparr> \<and>
        get_question (fst (question_edit logged_in POST tid qid form db)) qid
          = Inr (q\<lparr>q_text := v, q_help_text := form ''help_text'',
                    q_question_type := form ''question_type''\<rparr>))"
proof (intro conjI allI impI)
  assume li: "logged_in" and q: "get_question db qid = Inr q"
  from q have qid: "q_id q = qid" by (auto dest: get_question_InrD)
  from q have range: "qid \<le> sqlite_max_int"
    by (simp add: get_question_def get_or_404_Inr)
  fix tid
  show del: "fst (question_delete logged_in tid qid db)
          = db\<lparr>questions := filter (\<lambda>x. q_id x \<noteq> qid) (questions db)\<rparr>"
    using li q qid by (simp add: question_delete_def)
  show "get_question (fst (question_delete logged_in tid qid db)) qid = Inl NotFound"
    unfolding del using range by (simp add: get_question_def get_or_404_filter_same)
next
  fix tid v
  assume li: "logged_in" and q: "get_question db qid = Inr q"
    and h: "(\<exists>t. get_template db tid = Inr t) \<and> form ''text'' = Some v"
  from q have qid: "q_id q = qid" by (auto dest: get_question_InrD)
  show ed: "fst (question_edit logged_in POST tid qid form db)
          = db\<lparr>questions :=
                 map (\<lambda>x. if q_id x = qid
                           then x\<lparr>q_text := v, q_help_text := form ''help_text'',
                                  q_question_type := form ''question_type''\<rparr>
                           else x)
                     (questions db)\<rparr>"
    using li q qid h by (auto simp: question_edit_def)
  show "get_question (fst (question_edit logged_in POST tid qid form db)) qid
          = Inr (q\<lparr>q_text := v, q_help_text := form ''help_text'',
                    q_question_type := form ''question_type''\<rparr>)"
    unfolding ed get_question_after_edit using q qid by simp
qed

theorem question_routes_ignore_template_witness:
  "q_template_id (hd (questions sample_db)) = 1 \<and>
   get_template sample_db 9 = Inl NotFound \<and>
   get_question (fst (question_delete True 9 1 sample_db)) 1 = Inl NotFound \<and>
   get_question (fst (question_delete True 2 1 sample_db)) 1 = Inl NotFound \<and>
   fst (question_delete True 2 1 sample_db) = fst (question_delete True 1 1 sample_db) \<and>
   get_question (fst (question_edit True POST 2 1 [''text'' \<mapsto> ''Where?''] sample_db)) 1
     = Inr \<lparr>q_id = 1, q_template_id = 1, q_text = ''Where?'',
             q_help_text = None, q_required = Some True, q_question_type = None,
             q_options_json = None\<rparr>"
proof -
  let ?f = "[''text'' \<mapsto> ''Where?'']"
  have q: "get_question sample_db 1 = Inr (hd (questions sample_db))"
    by (simp add: get_question_def get_or_404_def sqlite_max_int_def sample_db_def)
  have own: "q_template_id (hd (questions sample_db)) = 1"
    by (simp add: sample_db_def)
  have t9: "get_template sample_db 9 = Inl NotFound"
    by (simp add: get_template_def get_or_404_def sqlite_max_int_def sample_db_def)
  have t2: "\<exists>t. get_template sample_db 2 = Inr t"
    by (simp add: get_template_def get_or_404_def sqlite_max_int_def sample_db_def)
  have f: "?f ''text'' = Some ''Where?''"
    by simp
  have u: "(hd (questions sample_db))\<lparr>q_text := ''Where?'',
             q_help_text := ?f ''help_text'', q_question_type := ?f ''question_type''\<rparr>
     = \<lparr>q_id = 1, q_template_id = 1, q_text = ''Where?'',
        q_help_text = None, q_required = Some True, q_question_type = None,
        q_options_json = None\<rparr>"
    by (simp add: sample_db_def)
  note r = question_routes_ignore_template [of True sample_db 1 "hd (questions sample_db)" ?f,
      OF TrueI q]
  from r have d9: "get_question (fst (question_delete True 9 1 sample_db)) 1 = Inl NotFound"
    by blast
  from r have d2: "get_question (fst (question_delete True 2 1 sample_db)) 1 = Inl NotFound"
    by blast
  from r have same: "fst (question_delete True 2 1 sample_db) = fst (question_delete True 1 1 sample_db)"
    by simp
  from r t2 f have e2: "get_question (fst (question_edit True POST 2 1 ?f sample_db)) 1
      = Inr ((hd (questions sample_db))\<lparr>q_text := ''Where?'',
             q_help_text := ?f ''help_text'', q_question_type := ?f ''question_type''\<rparr>)"
    by blast
  from own t9 d9 d2 same e2 show ?thesis unfolding u by blast
qed

section \<open>Listing assessments\<close>

text \<open>
  C8. For a logged-in request \<open>assessments_list\<close> renders a list that holds every stored
  assessment, each as often as the table does, and nothing else; and whenever an
  assessment \<open>a\<close> carries a later creation time than an assessment \<open>b\<close>, every
  position of \<open>a\<close> in the list is before every position of \<open>b\<close>.
\<close>

theorem assessments_list_newest_first:
  "logged_in \<Longrightarrow>
     (\<exists>xs. assessments_list logged_in db = (db, Render (Assessments_list_html xs)) \<and>
        mset xs = mset (assessments db) \<and>
        (\<forall>i j. i < length xs \<and> j < length xs \<and>
           a_created_at (xs ! j) < a_created_at (xs ! i) \<longrightarrow> i < j))"
proof -
  assume li: "logged_in"
  let ?xs = "order_by_created_at_desc (assessments db)"
  have r: "assessments_list logged_in db = (db, Render (Assessments_list_html ?xs))"
    using li by (simp add: assessments_list_def)
  have m: "mset ?xs = mset (assessments db)"
    by (simp add: order_by_created_at_desc_def)
  have s: "sorted (map (\<lambda>a. - a_created_at a) ?xs)"
    by (simp add: order_by_created_at_desc_def)
  have p: "\<forall>i j. i < length ?xs \<and> j < length ?xs \<and>
           a_created_at (?xs ! j) < a_created_at (?xs ! i) \<longrightarrow> i < j"
    using sorted_desc_precedes [OF s] by blast
  from r m p show ?thesis by blast
qed

theorem assessments_list_newest_first_witness:
  "assessments_list True sample_db
     = (sample_db, Render (Assessments_list_html
          [\<lparr>a_id = 2, a_template_id = 1, a_name = ''Second'', a_vendor_name = None,
            a_product_name = None, a_created_at = 200\<rparr>,
           \<lparr>a_id = 1, a_template_id = 1, a_name = ''First'', a_vendor_name = Some ''Acme'',
            a_product_name = None, a_created_at = 100\<rparr>])) \<and>
   a_created_at (assessments sample_db ! 0) < a_created_at (assessments sample_db ! 1)"
proof -
  from assessments_list_newest_first [of True sample_db]
  obtain xs where r: "assessments_list True sample_db = (sample_db, Render (Assessments_list_html xs))"
    and m: "mset xs = mset (assessments sample_db)"
    and p: "\<forall>i j. i < length xs \<and> j < length xs \<and>
           a_created_at (xs ! j) < a_created_at (xs ! i) \<longrightarrow> i < j"
    by blast
  have e: "assessments_list True sample_db
     = (sample_db, Render (Assessments_list_html
          [\<lparr>a_id = 2, a_template_id = 1, a_name = ''Second'', a_vendor_name = None,
            a_product_name = None, a_created_at = 200\<rparr>,
           \<lparr>a_id = 1, a_template_id = 1, a_name = ''First'', a_vendor_name = Some ''Acme'',
            a_product_name = None, a_created_at = 100\<rparr>]))"
    by (simp add: assessments_list_def order_by_created_at_desc_def sample_db_def)
  have c: "a_created_at (assessments sample_db ! 0) < a_created_at (assessments sample_db ! 1)"
    by (simp add: sample_db_def)
  from r e c show ?thesis by simp
qed

section \<open>The order of a template's questions\<close>

text \<open>
  C7. In a well-formed database and for a logged-in request, the editing view
  (\<open>template_edit\<close>, GET) and the assessment-filling view (\<open>assessment_new\<close>, GET) of an
  existing template render the same question list, and that list is ascending by
  question id. It is in insertion order: a question added through \<open>template_edit\<close> comes
  last in the template's list, after every question the list held, with a larger id.
\<close>

theorem question_views_in_id_order:
  "logged_in \<Longrightarrow> db_ok db \<Longrightarrow> get_template db tid = Inr t \<Longrightarrow>
     template_edit logged_in GET tid form db
       = (db, Render (Template_edit_html (Some t) (questions_of db tid))) \<and>
     assessment_new logged_in GET tid form now db
       = (db, Render (Assessment_new_html t (questions_of db tid))) \<and>
     sorted_wrt (<) (map q_id (questions_of db tid)) \<and>
     (\<forall>v. form ''question_text'' = Some v \<and> v \<noteq> [] \<longrightarrow>
        (\<exists>qn. questions_of (fst (template_edit logged_in POST tid form db)) tid
                = questions_of db tid @ [qn] \<and>
              q_text qn = v \<and>
              (\<forall>q \<in> set (questions_of db tid). q_id q < q_id qn)))"
proof (intro conjI allI impI)
  assume li: "logged_in" and ok: "db_ok db" and t: "get_template db tid = Inr t"
  from t have tid: "t_id t = tid" by (auto dest: get_template_InrD)
  show "template_edit logged_in GET tid form db
       = (db, Render (Template_edit_html (Some t) (questions_of db tid)))"
    using li t tid by (simp add: template_edit_def)
  show "assessment_new logged_in GET tid form now db
       = (db, Render (Assessment_new_html t (questions_of db tid)))"
    using li t tid by (simp add: assessment_new_def)
  from ok have "sorted_wrt (<) (map q_id (questions db))"
    by (simp add: db_ok_def)
  then show "sorted_wrt (<) (map q_id (questions_of db tid))"
    unfolding questions_of_def by (simp add: sorted_wrt_map sorted_wrt_filter)
  fix v
  assume h: "form ''question_text'' = Some v \<and> v \<noteq> []"
  define qn where "qn = \<lparr>q_id = next_id (map q_id (questions db)), q_template_id = tid,
     q_text = v, q_help_text = form ''help_text'', q_required = Some True,
     q_question_type = Some (case form ''question_type'' of None \<Rightarrow> ''text'' | Some s \<Rightarrow> s),
     q_options_json = None\<rparr>"
  have res: "fst (template_edit logged_in POST tid form db)
               = db\<lparr>questions := questions db @ [qn]\<rparr>"
    using li t tid h by (simp add: template_edit_def add_question_def qn_def)
  have a: "questions_of (fst (template_edit logged_in POST tid form db)) tid
             = questions_of db tid @ [qn]"
    unfolding res by (simp add: questions_of_def qn_def)
  have b: "q_text qn = v"
    by (simp add: qn_def)
  have c: "\<forall>q \<in> set (questions_of db tid). q_id q < q_id qn"
    by (auto simp: questions_of_def qn_def intro: next_id_fresh)
  from a b c
  show "\<exists>qn. questions_of (fst (template_edit logged_in POST tid form db)) tid
                = questions_of db tid @ [qn] \<and>
              q_text qn = v \<and>
              (\<forall>q \<in> set (questions_of db tid). q_id q < q_id qn)"
    by blast
qed

theorem question_views_in_id_order_witness:
  "db_ok sample_db \<and>
   map q_id (questions_of sample_db 1) = [1, 2] \<and>
   template_edit True GET 1 [''question_text'' \<mapsto> ''Why?''] sample_db
     = (sample_db, Render (Template_edit_html (Some (hd (templates sample_db)))
                             (questions_of sample_db 1))) \<and>
   assessment_new True GET 1 [''question_text'' \<mapsto> ''Why?''] 300 sample_db
     = (sample_db, Render (Assessment_new_html (hd (templates sample_db))
                             (questions_of sample_db 1))) \<and>
   sorted_wrt (<) (map q_id (questions_of sample_db 1)) \<and>
   map q_text (questions_of
      (fst (template_edit True POST 1 [''question_text'' \<mapsto> ''Why?''] sample_db)) 1)
     = [''Data stored where?'', ''Who has access?'', ''Why?'']"
proof -
  let ?f = "[''question_text'' \<mapsto> ''Why?'']"
  have ok: "db_ok sample_db"
    by (simp add: db_ok_def sample_db_def)
  have t: "get_template sample_db 1 = Inr (hd (templates sample_db))"
    by (simp add: get_template_def get_or_404_def sqlite_max_int_def sample_db_def)
  have ids: "map q_id (questions_of sample_db 1) = [1, 2]"
    by (simp add: questions_of_def sample_db_def)
  have txts: "map q_text (questions_of sample_db 1) = [''Data stored where?'', ''Who has access?'']"
    by (simp add: questions_of_def sample_db_def)
  have f: "?f ''question_text'' = Some ''Why?'' \<and> ''Why?'' \<noteq> []"
    by simp
  note r = question_views_in_id_order [of True sample_db 1 "hd (templates sample_db)" ?f 300,
      OF TrueI ok t]
  from r f obtain qn where
    a: "questions_of (fst (template_edit True POST 1 ?f sample_db)) 1
          = questions_of sample_db 1 @ [qn]" and b: "q_text qn = ''Why?''"
    by blast
  have new: "map q_text (questions_of (fst (template_edit True POST 1 ?f sample_db)) 1)
     = [''Data stored where?'', ''Who has access?'', ''Why?'']"
    unfolding a map_append txts by (simp add: b)
  from r have views: "template_edit True GET 1 ?f sample_db
     = (sample_db, Render (Template_edit_html (Some (hd (templates sample_db)))
                             (questions_of sample_db 1))) \<and>
   assessment_new True GET 1 ?f 300 sample_db
     = (sample_db, Render (Assessment_new_html (hd (templates sample_db))
                             (questions_of sample_db 1))) \<and>
   sorted_wrt (<) (map q_id (questions_of sample_db 1))"
    by blast
  from ok ids views new show ?thesis by blast
qed

section \<open>Seeding the default templates\<close>

text \<open>
  C9. \<open>seed_default_templates\<close> returns the database as it is when the template table
  holds at least one row. On a well-formed database with no template it writes exactly
  two templates, "Third-Party Due Diligence Assessment" and "Data Protection Impact
  Assessment (DPIA)", and twelve questions: the six of the first template and the six
  of the second, with the texts below, type \<open>textarea\<close>, in this order; the other tables
  stay as they are. Running it a second time changes nothing, whatever the database.
\<close>

theorem seed_default_templates_idempotent:
  "(templates db \<noteq> [] \<longrightarrow> seed_default_templates db = db) \<and>
   (db_ok db \<and> templates db = [] \<longrightarrow>
      seed_default_templates db =
        db\<lparr>templates :=
             [\<lparr>t_id = 1, t_name = ''Third-Party Due Diligence Assessment'',
               t_template_type = ''Due Diligence'',
               t_description = Some ''Basic vendor due diligence questionnaire.''\<rparr>,
              \<lparr>t_id = 2, t_name = ''Data Protection Impact Assessment (DPIA)'',
               t_template_type = ''DPIA'',
               t_description = Some ''High-level DPIA for internal products.''\<rparr>],
           questions :=
             map (\<lambda>(i, s). \<lparr>q_id = i, q_template_id = 1, q_text = s, q_help_text = None,
                    q_required = Some True, q_question_type = Some ''textarea'',
                    q_options_json = None\<rparr>)
               [(1, ''What is the legal name of the vendor?''),
                (2, ''Describe the services the vendor will provide.''),
                (3, ''Will the vendor process personal data?''),
                (4, ''Will the vendor process special categories of personal data?''),
                (5, ''Where will the data be stored and processed?''),
                (6, ''Does the vendor have security certifications?'')] @
             map (\<lambda>(i, s). \<lparr>q_id = i, q_template_id = 2, q_text = s, q_help_text = None,
                    q_required = Some True, q_question_type = Some ''textarea'',
                    q_options_json = None\<rparr>)
               [(7, ''Describe the processing activity.''),
                (8, ''What types of personal data are processed?''),
                (9, ''Who are the data subjects?''),
                (10, ''What risks exist?''),
                (11, ''What safeguards are implemented?''),
                (12, ''Any data transfer outside the EEA?'')]\<rparr>) \<and>
   seed_default_templates (seed_default_templates db) = seed_default_templates db"
proof (intro conjI impI)
  assume "templates db \<noteq> []"
  then show "seed_default_templates db = db"
    by (simp add: seed_default_templates_def)
next
  assume h: "db_ok db \<and> templates db = []"
  then have "questions db = []"
    by (simp add: db_ok_no_templates)
  with h show "seed_default_templates db =
        db\<lparr>templates :=
             [\<lparr>t_id = 1, t_name = ''Third-Party Due Diligence Assessment'',
               t_template_type = ''Due Diligence'',
               t_description = Some ''Basic vendor due diligence questionnaire.''\<rparr>,
              \<lparr>t_id = 2, t_name = ''Data Protection Impact Assessment (DPIA)'',
               t_template_type = ''DPIA'',
               t_description = Some ''High-level DPIA for internal products.''\<rparr>],
           questions :=
             map (\<lambda>(i, s). \<lparr>q_id = i, q_template_id = 1, q_text = s, q_help_text = None,
                    q_required = Some True, q_question_type = Some ''textarea'',
                    q_options_json = None\<rparr>)
               [(1, ''What is the legal name of the vendor?''),
                (2, ''Describe the services the vendor will provide.''),
                (3, ''Will the vendor process personal data?''),
                (4, ''Will the vendor process special categories of personal data?''),
                (5, ''Where will the data be stored and processed?''),
                (6, ''Does the vendor have security certifications?'')] @
             map (\<lambda>(i, s). \<lparr>q_id = i, q_template_id = 2, q_text = s, q_help_text = None,
                    q_required = Some True, q_question_type = Some ''textarea'',
                    q_options_json = None\<rparr>)
               [(7, ''Describe the processing activity.''),
                (8, ''What types of personal data are processed?''),
                (9, ''Who are the data subjects?''),
                (10, ''What risks exist?''),
                (11, ''What safeguards are implemented?''),
                (12, ''Any data transfer outside the EEA?'')]\<rparr>"
    by (simp only: seed_on_empty)
next
  have "templates (seed_default_templates db) \<noteq> []"
    by (rule seed_nonempty)
  then show "seed_default_templates (seed_default_templates db) = seed_default_templates db"
    by (simp add: seed_default_templates_def [of "seed_default_templates db"])
qed

theorem seed_default_templates_idempotent_witness:
  "map t_name (templates (seed_default_templates empty_db))
     = [''Third-Party Due Diligence Assessment'', ''Data Protection Impact Assessment (DPIA)''] \<and>
   map q_text (questions_of (seed_default_templates empty_db) 1)
     = [''What is the legal name of the vendor?'',
        ''Describe the services the vendor will provide.'',
        ''Will the vendor process personal data?'',
        ''Will the vendor process special categories of personal data?'',
        ''Where will the data be stored and processed?'',
        ''Does the vendor have security certifications?''] \<and>
   map q_text (questions_of (seed_default_templates empty_db) 2)
     = [''Describe the processing activity.'',
        ''What types of personal data are processed?'',
        ''Who are the data subjects?'',
        ''What risks exist?'',
        ''What safeguards are implemented?'',
        ''Any data transfer outside the EEA?''] \<and>
   seed_default_templates (seed_default_templates empty_db) = seed_default_templates empty_db \<and>
   seed_default_templates sample_db = sample_db"
proof -
  have ok: "db_ok empty_db \<and> templates empty_db = []"
    by (simp add: db_ok_def empty_db_def)
  have ne: "templates sample_db \<noteq> []"
    by (simp add: sample_db_def)
  note r0 = seed_default_templates_idempotent [of empty_db]
  note r1 = seed_default_templates_idempotent [of sample_db]
  from r0 ok have e: "seed_default_templates empty_db =
        empty_db\<lparr>templates :=
             [\<lparr>t_id = 1, t_name = ''Third-Party Due Diligence Assessment'',
               t_template_type = ''Due Diligence'',
               t_description = Some ''Basic vendor due diligence questionnaire.''\<rparr>,
              \<lparr>t_id = 2, t_name = ''Data Protection Impact Assessment (DPIA)'',
               t_template_type = ''DPIA'',
               t_description = Some ''High-level DPIA for internal products.''\<rparr>],
           questions :=
             map (\<lambda>(i, s). \<lparr>q_id = i, q_template_id = 1, q_text = s, q_help_text = None,
                    q_required = Some True, q_question_type = Some ''textarea'',
                    q_options_json = None\<rparr>)
               [(1, ''What is the legal name of the vendor?''),
                (2, ''Describe the services the vendor will provide.''),
                (3, ''Will the vendor process personal data?''),
                (4, ''Will the vendor process special categories of personal data?''),
                (5, ''Where will the data be stored and processed?''),
                (6, ''Does the vendor have security certifications?'')] @
             map (\<lambda>(i, s). \<lparr>q_id = i, q_template_id = 2, q_text = s, q_help_text = None,
                    q_required = Some True, q_question_type = Some ''textarea'',
                    q_options_json = None\<rparr>)
               [(7, ''Describe the processing activity.''),
                (8, ''What types of personal data are processed?''),
                (9, ''Who are the data subjects?''),
                (10, ''What risks exist?''),
                (11, ''What safeguards are implemented?''),
                (12, ''Any data transfer outside the EEA?'')]\<rparr>"
    by blast
  have a: "map t_name (templates (seed_default_templates empty_db))
     = [''Third-Party Due Diligence Assessment'', ''Data Protection Impact Assessment (DPIA)'']"
    unfolding e by simp
  have b: "map q_text (questions_of (seed_default_templates empty_db) 1)
     = [''What is the legal name of the vendor?'',
        ''Describe the services the vendor will provide.'',
        ''Will the vendor process personal data?'',
        ''Will the vendor process special categories of personal data?'',
        ''Where will the data be stored and processed?'',
        ''Does the vendor have security certifications?'']"
    unfolding e by (simp add: questions_of_def)
  have c: "map q_text (questions_of (seed_default_templates empty_db) 2)
     = [''Describe the processing activity.'',
        ''What types of personal data are processed?'',
        ''Who are the data subjects?'',
        ''What risks exist?'',
        ''What safeguards are implemented?'',
        ''Any data transfer outside the EEA?'']"
    unfolding e by (simp add: questions_of_def)
  from r0 have d: "seed_default_templates (seed_default_templates empty_db)
      = seed_default_templates empty_db"
    by blast
  from r1 ne have f: "seed_default_templates sample_db = sample_db"
    by blast
  from a b c d f show ?thesis by blast
qed

section \<open>Creating an assessment\<close>

lemma assessment_new_success:
  assumes li: "logged_in" and t: "get_template db tid = Inr t"
    and n: "form ''assessment_name'' = Some n" "n \<noteq> []"
  shows "\<exists>new. assessment_new logged_in POST tid form now db
      = (db\<lparr>assessments := assessments db @
              [\<lparr>a_id = next_id (map a_id (assessments db)), a_template_id = tid, a_name = n,
                a_vendor_name = form ''vendor_name'', a_product_name = form ''product_name'',
                a_created_at = now\<rparr>],
            answers := answers db @ new\<rparr>,
         Redirect (Ep_assessment_view (next_id (map a_id (assessments db))))
           [(''Assessment saved.'', ''success'')]) \<and>
     map (\<lambda>x. (ans_assessment_id x, ans_question_id x, ans_answer_text x)) new
       = map (\<lambda>q. (next_id (map a_id (assessments db)), q_id q, form (field_name (q_id q))))
           (questions_of db tid)"
proof -
  from t have tid: "t_id t = tid" by (auto dest: get_template_InrD)
  let ?aid = "next_id (map a_id (assessments db))"
  let ?db1 = "db\<lparr>assessments := assessments db @
              [\<lparr>a_id = ?aid, a_template_id = tid, a_name = n,
                a_vendor_name = form ''vendor_name'', a_product_name = form ''product_name'',
                a_created_at = now\<rparr>]\<rparr>"
  let ?db2 = "fold (\<lambda>q. add_answer ?aid (q_id q) (form (field_name (q_id q))))
                (questions_of db tid) ?db1"
  have r: "assessment_new logged_in POST tid form now db
             = (?db2, Redirect (Ep_assessment_view ?aid) [(''Assessment saved.'', ''success'')])"
    using li t tid n by (simp add: assessment_new_def Let_def)
  from fold_add_answer_rows [of ?aid q_id "\<lambda>q. form (field_name (q_id q))" "questions_of db tid" ?db1]
  obtain new where a: "answers ?db2 = answers ?db1 @ new"
    and m: "map (\<lambda>x. (ans_assessment_id x, ans_question_id x, ans_answer_text x)) new
       = map (\<lambda>q. (?aid, q_id q, form (field_name (q_id q)))) (questions_of db tid)"
    by blast
  have "?db2 = ?db1\<lparr>answers := answers ?db2\<rparr>"
    by (rule fold_add_answer_frame)
  with a have "?db2 = ?db1\<lparr>answers := answers db @ new\<rparr>"
    by simp
  with r m show ?thesis by auto
qed



text \<open>
  C2, as the code has it. A logged-in request to \<open>assessment_new\<close> whose template id is
  a valid row id that no template carries ends in 404, and one whose template id is
  beyond the 64-bit range ends in status 500; a logged-in POST for an existing template
  whose \<open>assessment_name\<close> is blank (not submitted, or the empty string) ends in the
  redirect back to the form with the message that the name is required; all three
  leave the database as it was. Every run,
  whatever the request, either leaves the database as it was or ends in the redirect to
  the new assessment after adding that assessment together with one answer for each
  question of the template, all of them carrying the id of the new assessment. No run
  writes an assessment with a part of its answers, or answers without the assessment.
\<close>

theorem assessment_new_all_or_nothing:
  "(logged_in \<and> tid \<le> sqlite_max_int \<and> tid \<notin> set (map t_id (templates db)) \<longrightarrow>
      assessment_new logged_in method tid form now db = (db, NotFound)) \<and>
   (logged_in \<and> sqlite_max_int < tid \<longrightarrow>
      assessment_new logged_in method tid form now db = (db, ServerError)) \<and>
   (logged_in \<and> (\<exists>t. get_template db tid = Inr t) \<and> blank (form ''assessment_name'') \<longrightarrow>
      assessment_new logged_in POST tid form now db
        = (db, Redirect (Ep_assessment_new tid) [(''Assessment name is required.'', ''danger'')])) \<and>
   (fst (assessment_new logged_in method tid form now db) = db \<or>
    (\<exists>a new.
       assessment_new logged_in method tid form now db
         = (db\<lparr>assessments := assessments db @ [a], answers := answers db @ new\<rparr>,
            Redirect (Ep_assessment_view (a_id a)) [(''Assessment saved.'', ''success'')]) \<and>
       map ans_question_id new = map q_id (questions_of db tid) \<and>
       (\<forall>x \<in> set new. ans_assessment_id x = a_id a)))"
proof (intro conjI impI)
  assume h: "logged_in \<and> tid \<le> sqlite_max_int \<and> tid \<notin> set (map t_id (templates db))"
  then have "get_template db tid = Inl NotFound"
    by (simp add: get_template_def get_or_404_NotFound)
  with h show "assessment_new logged_in method tid form now db = (db, NotFound)"
    by (simp add: assessment_new_def)
next
  assume h: "logged_in \<and> sqlite_max_int < tid"
  then have "get_template db tid = Inl ServerError"
    by (simp add: get_template_def get_or_404_ServerError)
  with h show "assessment_new logged_in method tid form now db = (db, ServerError)"
    by (simp add: assessment_new_def)
next
  assume h: "logged_in \<and> (\<exists>t. get_template db tid = Inr t) \<and> blank (form ''assessment_name'')"
  then obtain t where t: "get_template db tid = Inr t" by auto
  then have "t_id t = tid" by (auto dest: get_template_InrD)
  with h t show "assessment_new logged_in POST tid form now db
        = (db, Redirect (Ep_assessment_new tid) [(''Assessment name is required.'', ''danger'')])"
    by (auto simp: assessment_new_def blank_def Let_def split: option.splits)
next
  let ?r = "assessment_new logged_in method tid form now db"
  let ?written = "\<exists>a new.
       ?r = (db\<lparr>assessments := assessments db @ [a], answers := answers db @ new\<rparr>,
            Redirect (Ep_assessment_view (a_id a)) [(''Assessment saved.'', ''success'')]) \<and>
       map ans_question_id new = map q_id (questions_of db tid) \<and>
       (\<forall>x \<in> set new. ans_assessment_id x = a_id a)"
  show "fst ?r = db \<or> ?written"
  proof (cases "logged_in \<and> method = POST \<and> (\<exists>t. get_template db tid = Inr t) \<and>
                \<not> blank (form ''assessment_name'')")
    case False
    then have "fst ?r = db"
      by (cases "method")
         (auto simp: assessment_new_def blank_def Let_def split: option.splits sum.splits)
    then show ?thesis by blast
  next
    case True
    then obtain t n where li: "logged_in" and m: "method = POST"
      and t: "get_template db tid = Inr t"
      and n: "form ''assessment_name'' = Some n" "n \<noteq> []"
      by (auto simp: blank_def split: option.splits)
    let ?aid = "next_id (map a_id (assessments db))"
    let ?a = "\<lparr>a_id = ?aid, a_template_id = tid, a_name = n,
                a_vendor_name = form ''vendor_name'', a_product_name = form ''product_name'',
                a_created_at = now\<rparr>"
    from assessment_new_success [where form = form and now = now, OF li t n] obtain new where
      r: "assessment_new logged_in POST tid form now db
        = (db\<lparr>assessments := assessments db @ [?a], answers := answers db @ new\<rparr>,
           Redirect (Ep_assessment_view ?aid) [(''Assessment saved.'', ''success'')])" and
      rows: "map (\<lambda>x. (ans_assessment_id x, ans_question_id x, ans_answer_text x)) new
         = map (\<lambda>q. (?aid, q_id q, form (field_name (q_id q)))) (questions_of db tid)"
      by blast
    have q: "map ans_question_id new = map q_id (questions_of db tid)"
    proof -
      have "map ans_question_id new
          = map (\<lambda>p. fst (snd p))
              (map (\<lambda>x. (ans_assessment_id x, ans_question_id x, ans_answer_text x)) new)"
        by (simp add: comp_def)
      then show ?thesis unfolding rows by (simp add: comp_def)
    qed
    have "map ans_assessment_id new = map (\<lambda>q. ?aid) (questions_of db tid)"
    proof -
      have "map ans_assessment_id new
          = map fst (map (\<lambda>x. (ans_assessment_id x, ans_question_id x, ans_answer_text x)) new)"
        by (simp add: comp_def)
      then show ?thesis unfolding rows by (simp add: comp_def)
    qed
    then have "set (map ans_assessment_id new) \<subseteq> {?aid}"
      by auto
    then have own: "\<forall>x \<in> set new. ans_assessment_id x = a_id ?a"
      by auto
    have "?r = (db\<lparr>assessments := assessments db @ [?a], answers := answers db @ new\<rparr>,
            Redirect (Ep_assessment_view (a_id ?a)) [(''Assessment saved.'', ''success'')])"
      using r m by simp
    with q own have ?written by blast
    then show ?thesis by blast
  qed
qed

theorem assessment_new_all_or_nothing_witness:
  "assessment_new True GET 9 [''assessment_name'' \<mapsto> ''Acme Review''] 300 sample_db
     = (sample_db, NotFound) \<and>
   assessment_new True POST 9 [''assessment_name'' \<mapsto> ''Acme Review''] 300 sample_db
     = (sample_db, NotFound) \<and>
   assessment_new True POST 9223372036854775808 [''assessment_name'' \<mapsto> ''Acme Review''] 300
       sample_db
     = (sample_db, ServerError) \<and>
   assessment_new True POST 1 [''assessment_name'' \<mapsto> ''''] 300 sample_db
     = (sample_db, Redirect (Ep_assessment_new 1) [(''Assessment name is required.'', ''danger'')]) \<and>
   assessment_new True POST 1 Map.empty 300 sample_db
     = (sample_db, Redirect (Ep_assessment_new 1) [(''Assessment name is required.'', ''danger'')]) \<and>
   length (assessments (fst (assessment_new True POST 1 [''assessment_name'' \<mapsto> ''Acme Review'']
                               300 sample_db))) = 3 \<and>
   length (answers (fst (assessment_new True POST 1 [''assessment_name'' \<mapsto> ''Acme Review'']
                           300 sample_db))) = 4"
proof -
  let ?f = "[''assessment_name'' \<mapsto> ''Acme Review'']"
  have t9: "(9::nat) \<le> sqlite_max_int \<and> 9 \<notin> set (map t_id (templates sample_db))"
    by (simp add: sqlite_max_int_def sample_db_def)
  have big: "sqlite_max_int < 9223372036854775808"
    by (simp add: sqlite_max_int_def)
  have t1: "\<exists>t. get_template sample_db 1 = Inr t"
    by (simp add: get_template_def get_or_404_def sqlite_max_int_def sample_db_def)
  have b1: "blank ([''assessment_name'' \<mapsto> ''''] ''assessment_name'')"
    by (simp add: blank_def)
  have b2: "blank (Map.empty ''assessment_name'')"
    by (simp add: blank_def)
  from assessment_new_all_or_nothing [of True 9 sample_db GET ?f 300] t9
  have c1: "assessment_new True GET 9 ?f 300 sample_db = (sample_db, NotFound)"
    by blast
  from assessment_new_all_or_nothing [of True 9 sample_db POST ?f 300] t9
  have c2: "assessment_new True POST 9 ?f 300 sample_db = (sample_db, NotFound)"
    by blast
  from assessment_new_all_or_nothing [of True 9223372036854775808 sample_db POST ?f 300] big
  have c2b: "assessment_new True POST 9223372036854775808 ?f 300 sample_db
      = (sample_db, ServerError)"
    by blast
  from assessment_new_all_or_nothing [of True 1 sample_db POST "[''assessment_name'' \<mapsto> '''']" 300]
    t1 b1
  have c3: "assessment_new True POST 1 [''assessment_name'' \<mapsto> ''''] 300 sample_db
     = (sample_db, Redirect (Ep_assessment_new 1) [(''Assessment name is required.'', ''danger'')])"
    by blast
  from assessment_new_all_or_nothing [of True 1 sample_db POST Map.empty 300] t1 b2
  have c4: "assessment_new True POST 1 Map.empty 300 sample_db
     = (sample_db, Redirect (Ep_assessment_new 1) [(''Assessment name is required.'', ''danger'')])"
    by blast
  have la: "length (assessments sample_db) = 2" and lx: "length (answers sample_db) = 2"
    and lq: "length (questions_of sample_db 1) = 2"
    by (simp_all add: sample_db_def questions_of_def)
  have "assessments (fst (assessment_new True POST 1 ?f 300 sample_db)) \<noteq> assessments sample_db"
    by (simp add: assessment_new_def get_template_def get_or_404_def sqlite_max_int_def Let_def
          next_id_def questions_of_def add_answer_def sample_db_def)
  then have changed: "fst (assessment_new True POST 1 ?f 300 sample_db) \<noteq> sample_db"
    by auto
  with assessment_new_all_or_nothing [of True 1 sample_db POST ?f 300]
  obtain a new where
    w: "assessment_new True POST 1 ?f 300 sample_db
         = (sample_db\<lparr>assessments := assessments sample_db @ [a],
                       answers := answers sample_db @ new\<rparr>,
            Redirect (Ep_assessment_view (a_id a)) [(''Assessment saved.'', ''success'')])" and
    q: "map ans_question_id new = map q_id (questions_of sample_db 1)"
    by blast
  have "length (map ans_question_id new) = length (map q_id (questions_of sample_db 1))"
    by (simp only: q)
  then have ln: "length new = 2"
    unfolding length_map lq .
  have c5: "length (assessments (fst (assessment_new True POST 1 ?f 300 sample_db))) = 3"
    unfolding w by (simp add: la)
  have c6: "length (answers (fst (assessment_new True POST 1 ?f 300 sample_db))) = 4"
    unfolding w by (simp add: lx ln)
  from c1 c2 c2b c3 c4 c5 c6 show ?thesis by blast
qed

text \<open>
  C2 as the spec words it ("fails with NotFoundError if template absent") does not hold
  of a template id beyond the 64-bit range: no template carries the id, and the handler
  ends in status 500.
\<close>

theorem assessment_new_absent_counterexample:
  "9223372036854775808 \<notin> set (map t_id (templates sample_db)) \<and>
   snd (assessment_new True POST 9223372036854775808 [''assessment_name'' \<mapsto> ''Acme Review'']
          300 sample_db)
     = ServerError \<and>
   ServerError \<noteq> NotFound"
  by (simp add: assessment_new_def get_template_def get_or_404_def sqlite_max_int_def
        sample_db_def)

section \<open>Registering a user\<close>

lemma register_present_fields:
  "form ''username'' = Some un \<Longrightarrow> form ''password'' = Some pw \<Longrightarrow>
     (un \<in> set (map u_username (users db)) \<longrightarrow>
        register h POST form db
          = (db, Redirect Ep_register [(''Username already exists'', ''danger'')])) \<and>
     (un \<notin> set (map u_username (users db)) \<longrightarrow>
        register h POST form db
          = (db\<lparr>users := users db @
                 [\<lparr>u_id = next_id (map u_id (users db)), u_username = un,
                   u_password_hash = h pw\<rparr>]\<rparr>,
             Redirect Ep_login [(''User created successfully. Please login.'', ''success'')]))"
proof (intro conjI impI)
  assume f: "form ''username'' = Some un" "form ''password'' = Some pw"
    and taken: "un \<in> set (map u_username (users db))"
  from taken have "find (\<lambda>u. Some (u_username u) = Some un) (users db) \<noteq> None"
    by (auto simp: find_None_iff)
  with f show "register h POST form db
        = (db, Redirect Ep_register [(''Username already exists'', ''danger'')])"
    by (simp add: register_def)
next
  assume f: "form ''username'' = Some un" "form ''password'' = Some pw"
    and free: "un \<notin> set (map u_username (users db))"
  from free have "find (\<lambda>u. Some (u_username u) = Some un) (users db) = None"
    by (auto simp: find_None_iff)
  with f show "register h POST form db
        = (db\<lparr>users := users db @
               [\<lparr>u_id = next_id (map u_id (users db)), u_username = un,
                 u_password_hash = h pw\<rparr>]\<rparr>,
           Redirect Ep_login [(''User created successfully. Please login.'', ''success'')])"
    by (simp add: register_def)
qed

text \<open>
  C3. The claim holds of \<open>register\<close> when both fields are submitted
  (\<open>register_present_fields\<close>: a taken username flashes "Username already exists" and
  redirects to the form, leaving the users as they were; a free one adds the user and
  redirects to the login). It fails when a required field is missing, because the
  handler checks no field. Submitting the form empty creates a user whose name and
  password are the empty string and redirects to the login with the success message;
  a POST without the field \<open>password\<close>, without the field \<open>username\<close>, or without both
  ends in an unhandled exception (status 500), not in the form with an error.
\<close>

theorem register_missing_fields:
  "register h POST [''username'' \<mapsto> '''', ''password'' \<mapsto> ''''] empty_db
     = (empty_db\<lparr>users := [\<lparr>u_id = 1, u_username = '''', u_password_hash = h ''''\<rparr>]\<rparr>,
        Redirect Ep_login [(''User created successfully. Please login.'', ''success'')]) \<and>
   register h POST [''username'' \<mapsto> ''bob''] sample_db = (sample_db, ServerError) \<and>
   register h POST [''password'' \<mapsto> ''pw1''] sample_db = (sample_db, ServerError) \<and>
   register h POST Map.empty sample_db = (sample_db, ServerError)"
  by (simp add: register_def empty_db_def sample_db_def next_id_def)

end
